theory Spec2Isabelle
  imports Main "HOL-Library.Sublist"
begin

text \<open>
  Three parts of the repository are embedded: the validators of advertisement texts
  (\<open>utils/validators.py\<close>), the tool server over the advertising platform
  (\<open>google_ads/mcp_server.py\<close>) and the generation adapter (\<open>ai/ai_generator.py\<close>, with
  the settings of \<open>config.py\<close>). Raising is a result: a function that may raise returns
  \<open>exn + 'a\<close>, with \<open>Inl\<close> for the exception. What the repository calls but does not
  contain is a parameter of the functions that call it: the client of the advertising
  platform, the provider libraries and their backends, \<open>json.loads\<close>, the case mapping
  \<open>str.lower\<close> and the table of alphanumeric code points. The definitions come first,
  the properties after them.
\<close>

section \<open>Python text\<close>

text \<open>
  A Python \<open>str\<close> is a sequence of Unicode code points and \<open>len\<close> counts code points,
  so text is modelled as a list of code points. The source has Russian literals; they
  are written as their code points, with a transliteration beside them. ASCII literals
  are written \<open>py ''...''\<close>.
\<close>

type_synonym pystr = "nat list"

abbreviation py :: "string \<Rightarrow> pystr" where
  "py s \<equiv> map of_char s"

text \<open>\<open>str.isspace\<close> of one code point: the white space table of CPython.\<close>

definition isspace :: "nat \<Rightarrow> bool" where
  "isspace c \<longleftrightarrow>
     (9 \<le> c \<and> c \<le> 13) \<or> (28 \<le> c \<and> c \<le> 32) \<or> c = 133 \<or> c = 160 \<or> c = 5760 \<or>
     (8192 \<le> c \<and> c \<le> 8202) \<or> c = 8232 \<or> c = 8233 \<or> c = 8239 \<or> c = 8287 \<or> c = 12288"

text \<open>\<open>s.strip()\<close>: white space removed at both ends.\<close>

definition strip :: "pystr \<Rightarrow> pystr" where
  "strip s = rev (dropWhile isspace (rev (dropWhile isspace s)))"

text \<open>\<open>s.startswith(p)\<close>, \<open>s.endswith(p)\<close> and \<open>sub in s\<close>.\<close>

fun startswith :: "pystr \<Rightarrow> pystr \<Rightarrow> bool" where
  "startswith s [] = True"
| "startswith [] (p # ps) = False"
| "startswith (c # cs) (p # ps) = (c = p \<and> startswith cs ps)"

definition endswith :: "pystr \<Rightarrow> pystr \<Rightarrow> bool" where
  "endswith s p = startswith (rev s) (rev p)"

fun str_in :: "pystr \<Rightarrow> pystr \<Rightarrow> bool" where
  "str_in sub [] = (sub = [])"
| "str_in sub (c # cs) = (startswith (c # cs) sub \<or> str_in sub cs)"

text \<open>
  \<open>s.lower()\<close> is the case mapping of Unicode: a table of Python, not of this
  repository. The functions that call it take it as the parameter \<open>lower\<close>. On ASCII
  text it turns the letters A to Z into a to z and leaves every other code point:
  \<open>ascii_lower\<close>; \<open>lower_on_ascii lower\<close> says that \<open>lower\<close> does so.
\<close>

definition ascii_lower :: "pystr \<Rightarrow> pystr" where
  "ascii_lower s = map (\<lambda>c. if 65 \<le> c \<and> c \<le> 90 then c + 32 else c) s"

definition is_ascii :: "pystr \<Rightarrow> bool" where
  "is_ascii s \<longleftrightarrow> list_all (\<lambda>c. c < 128) s"

definition lower_on_ascii :: "(pystr \<Rightarrow> pystr) \<Rightarrow> bool" where
  "lower_on_ascii lower \<longleftrightarrow> (\<forall>s. is_ascii s \<longrightarrow> lower s = ascii_lower s)"

text \<open>\<open>s.split()\<close>: the maximal runs of code points that are not white space.\<close>

fun split_acc :: "pystr \<Rightarrow> pystr \<Rightarrow> pystr list" where
  "split_acc cur [] = (if cur = [] then [] else [rev cur])"
| "split_acc cur (c # cs) =
     (if isspace c then (if cur = [] then split_acc [] cs else rev cur # split_acc [] cs)
      else split_acc (c # cur) cs)"

definition split :: "pystr \<Rightarrow> pystr list" where
  "split s = split_acc [] s"

text \<open>\<open>str(n)\<close> of a natural number and of an integer: decimal digits.\<close>

function str_nat :: "nat \<Rightarrow> pystr" where
  "str_nat n = (if n < 10 then [48 + n] else str_nat (n div 10) @ [48 + n mod 10])"
  by pat_completeness auto
termination
  by (relation "measure id") auto

declare str_nat.simps [simp del]

definition str_int :: "int \<Rightarrow> pystr" where
  "str_int i = (if i < 0 then 45 # str_nat (nat (- i)) else str_nat (nat i))"

section \<open>Validators (utils/validators.py)\<close>

definition HEADLINE_MAX_LENGTH :: nat where
  "HEADLINE_MAX_LENGTH = 30"

definition DESCRIPTION_MAX_LENGTH :: nat where
  "DESCRIPTION_MAX_LENGTH = 90"

definition PATH_MAX_LENGTH :: nat where
  "PATH_MAX_LENGTH = 15"

text \<open>The literal \<open>OK\<close>.\<close>

definition msg_ok :: pystr where
  "msg_ok = py ''OK''"

text \<open>"Zagolovok ne mozhet byt' pustym" (the headline cannot be empty).\<close>

definition msg_headline_empty :: pystr where
  "msg_headline_empty =
     [1047, 1072, 1075, 1086, 1083, 1086, 1074, 1086, 1082, 32, 1085, 1077, 32, 1084, 1086,
      1078, 1077, 1090, 32, 1073, 1099, 1090, 1100, 32, 1087, 1091, 1089, 1090, 1099, 1084]"

text \<open>"Zagolovok slishkom dlinnyj: " (the headline is too long).\<close>

definition msg_headline_long :: pystr where
  "msg_headline_long =
     [1047, 1072, 1075, 1086, 1083, 1086, 1074, 1086, 1082, 32, 1089, 1083, 1080, 1096, 1082,
      1086, 1084, 32, 1076, 1083, 1080, 1085, 1085, 1099, 1081, 58, 32]"

text \<open>" simvolov (maks. " (characters, at most).\<close>

definition msg_symbols_max :: pystr where
  "msg_symbols_max =
     [32, 1089, 1080, 1084, 1074, 1086, 1083, 1086, 1074, 32, 40, 1084, 1072, 1082, 1089, 46, 32]"

text \<open>"Opisanie ne mozhet byt' pustym" (the description cannot be empty).\<close>

definition msg_description_empty :: pystr where
  "msg_description_empty =
     [1054, 1087, 1080, 1089, 1072, 1085, 1080, 1077, 32, 1085, 1077, 32, 1084, 1086, 1078,
      1077, 1090, 32, 1073, 1099, 1090, 1100, 32, 1087, 1091, 1089, 1090, 1099, 1084]"

text \<open>"Opisanie slishkom dlinnoe: " (the description is too long).\<close>

definition msg_description_long :: pystr where
  "msg_description_long =
     [1054, 1087, 1080, 1089, 1072, 1085, 1080, 1077, 32, 1089, 1083, 1080, 1096, 1082, 1086,
      1084, 32, 1076, 1083, 1080, 1085, 1085, 1086, 1077, 58, 32]"

text \<open>"Put' slishkom dlinnyj: " (the path is too long).\<close>

definition msg_path_long :: pystr where
  "msg_path_long =
     [1055, 1091, 1090, 1100, 32, 1089, 1083, 1080, 1096, 1082, 1086, 1084, 32, 1076, 1083,
      1080, 1085, 1085, 1099, 1081, 58, 32]"

text \<open>
  "Put' mozhet soderzhat' tol'ko bukvy, cifry, defisy i podcherkivaniya" (the path may
  hold only letters, digits, hyphens and underscores).
\<close>

definition msg_path_chars :: pystr where
  "msg_path_chars =
     [1055, 1091, 1090, 1100, 32, 1084, 1086, 1078, 1077, 1090, 32, 1089, 1086, 1076, 1077,
      1088, 1078, 1072, 1090, 1100, 32, 1090, 1086, 1083, 1100, 1082, 1086, 32, 1073, 1091,
      1082, 1074, 1099, 44, 32, 1094, 1080, 1092, 1088, 1099, 44, 32, 1076, 1077, 1092, 1080,
      1089, 1099, 32, 1080, 32, 1087, 1086, 1076, 1095, 1077, 1088, 1082, 1080, 1074, 1072,
      1085, 1080, 1103]"

text \<open>The prefixes of \<open>validate_ad\<close>: "Zagolovok: ", "Opisanie: ", "Put' 1: ", "Put' 2: ".\<close>

definition ad_headline_prefix :: pystr where
  "ad_headline_prefix = [1047, 1072, 1075, 1086, 1083, 1086, 1074, 1086, 1082, 58, 32]"

definition ad_description_prefix :: pystr where
  "ad_description_prefix = [1054, 1087, 1080, 1089, 1072, 1085, 1080, 1077, 58, 32]"

definition ad_path1_prefix :: pystr where
  "ad_path1_prefix = [1055, 1091, 1090, 1100, 32, 49, 58, 32]"

definition ad_path2_prefix :: pystr where
  "ad_path2_prefix = [1055, 1091, 1090, 1100, 32, 50, 58, 32]"

text \<open>
  \<open>not headline\<close> is true of the empty text only. The f-string of the second branch
  renders the two lengths in decimal.
\<close>

definition validate_headline :: "pystr \<Rightarrow> bool \<times> pystr" where
  "validate_headline headline =
     (if headline = [] then (False, msg_headline_empty)
      else if length headline > HEADLINE_MAX_LENGTH then
        (False, msg_headline_long @ str_nat (length headline) @ msg_symbols_max
                @ str_nat HEADLINE_MAX_LENGTH @ py '')'')
      else (True, msg_ok))"

definition validate_description :: "pystr \<Rightarrow> bool \<times> pystr" where
  "validate_description description =
     (if description = [] then (False, msg_description_empty)
      else if length description > DESCRIPTION_MAX_LENGTH then
        (False, msg_description_long @ str_nat (length description) @ msg_symbols_max
                @ str_nat DESCRIPTION_MAX_LENGTH @ py '')'')
      else (True, msg_ok))"

text \<open>
  \<open>s.isalnum()\<close> holds when \<open>s\<close> is not empty and each of its code points is
  alphanumeric. The Unicode table of alphanumeric code points belongs to Python, not to
  this repository: it is the parameter \<open>alnum\<close>.
\<close>

definition isalnum :: "(nat \<Rightarrow> bool) \<Rightarrow> pystr \<Rightarrow> bool" where
  "isalnum alnum s \<longleftrightarrow> s \<noteq> [] \<and> list_all alnum s"

text \<open>\<open>s.replace(c, '')\<close> for a single code point \<open>c\<close>.\<close>

definition remove_cp :: "nat \<Rightarrow> pystr \<Rightarrow> pystr" where
  "remove_cp c s = filter (\<lambda>x. x \<noteq> c) s"

definition validate_path :: "(nat \<Rightarrow> bool) \<Rightarrow> pystr \<Rightarrow> bool \<times> pystr" where
  "validate_path alnum path =
     (if path = [] then (True, msg_ok)
      else if length path > PATH_MAX_LENGTH then
        (False, msg_path_long @ str_nat (length path) @ msg_symbols_max
                @ str_nat PATH_MAX_LENGTH @ py '')'')
      else if \<not> isalnum alnum (remove_cp 95 (remove_cp 45 path)) then (False, msg_path_chars)
      else (True, msg_ok))"

text \<open>
  \<open>validate_ad\<close> appends to \<open>errors\<close> in this order: headline, description, path 1,
  path 2; a path is looked at only when it is not empty.
\<close>

definition validate_ad :: "(nat \<Rightarrow> bool) \<Rightarrow> pystr \<Rightarrow> pystr \<Rightarrow> pystr \<Rightarrow> pystr \<Rightarrow> pystr list" where
  "validate_ad alnum headline description path1 path2 =
     (let errors = [];
          errors = (case validate_headline headline of
                      (valid, msg) \<Rightarrow> if \<not> valid then errors @ [ad_headline_prefix @ msg] else errors);
          errors = (case validate_description description of
                      (valid, msg) \<Rightarrow> if \<not> valid then errors @ [ad_description_prefix @ msg] else errors);
          errors = (if path1 \<noteq> [] then
                      (case validate_path alnum path1 of
                         (valid, msg) \<Rightarrow> if \<not> valid then errors @ [ad_path1_prefix @ msg] else errors)
                    else errors);
          errors = (if path2 \<noteq> [] then
                      (case validate_path alnum path2 of
                         (valid, msg) \<Rightarrow> if \<not> valid then errors @ [ad_path2_prefix @ msg] else errors)
                    else errors)
      in errors)"

text \<open>\<open>headline[:HEADLINE_MAX_LENGTH-3] + "..."\<close>.\<close>

definition ellipsis :: pystr where
  "ellipsis = py ''...''"

definition truncate_headline :: "pystr \<Rightarrow> pystr" where
  "truncate_headline headline =
     (if length headline \<le> HEADLINE_MAX_LENGTH then headline
      else take (HEADLINE_MAX_LENGTH - 3) headline @ ellipsis)"

definition truncate_description :: "pystr \<Rightarrow> pystr" where
  "truncate_description description =
     (if length description \<le> DESCRIPTION_MAX_LENGTH then description
      else take (DESCRIPTION_MAX_LENGTH - 3) description @ ellipsis)"

text \<open>
  One entry of the list of \<open>validate_ad\<close>: nothing for a valid field, the prefixed
  message otherwise (used to state the list part by part).
\<close>

definition ad_err :: "pystr \<Rightarrow> bool \<times> pystr \<Rightarrow> pystr list" where
  "ad_err p r = (if fst r then [] else [p @ snd r])"

section \<open>Exceptions\<close>

text \<open>
  A raised exception is a value: its class, as far as the source tells classes apart,
  and its message \<open>str(e)\<close>. Every class below is a subclass of \<open>Exception\<close>, which is
  what the handlers \<open>except Exception\<close> of the source catch; \<open>OtherError\<close> stands for
  every class that is none of the four named. What is not an \<open>Exception\<close> (a keyboard
  interrupt, the exit of the interpreter) is not modelled.
\<close>

datatype exn =
    ImportError pystr
  | ValueError pystr
  | AttributeError pystr
  | RecursionError pystr
  | OtherError pystr

fun str_exn :: "exn \<Rightarrow> pystr" where
  "str_exn (ImportError m) = m"
| "str_exn (ValueError m) = m"
| "str_exn (AttributeError m) = m"
| "str_exn (RecursionError m) = m"
| "str_exn (OtherError m) = m"

text \<open>
  The message of Python for an attribute that an object does not have, as in
  \<open>'int' object has no attribute 'lower'\<close>; 39 is the single quote.
\<close>

definition msg_no_attribute :: "pystr \<Rightarrow> pystr \<Rightarrow> pystr" where
  "msg_no_attribute tname attribute =
     [39] @ tname @ [39] @ py '' object has no attribute '' @ [39] @ attribute @ [39]"

section \<open>The tool server (google_ads/mcp_server.py)\<close>

subsection \<open>What the client returns\<close>

text \<open>
  The rows of \<open>GoogleAdsClient.search\<close> are the dictionaries of \<open>_row_to_dict\<close>: an
  optional \<open>campaign\<close> and an optional \<open>ad_group\<close>, each with \<open>id\<close>, \<open>name\<close> and
  \<open>status\<close>, and an optional \<open>metrics\<close> dictionary, which the server never reads and
  whose type is left open.
\<close>

record entity =
  ent_id :: int
  ent_name :: pystr
  ent_status :: "pystr option"

record 'm row =
  campaign :: "entity option"
  ad_group :: "entity option"
  metrics :: "'m option"

text \<open>The entries of \<open>list_accessible_customers\<close> and the answer of \<open>get_customer_info\<close>.\<close>

record customer =
  cust_id :: pystr
  resource_name :: pystr

record account_info =
  acc_id :: int
  acc_name :: pystr
  currency :: pystr
  time_zone :: pystr
  is_manager :: bool
  is_test :: bool

text \<open>
  The client is the boundary of the model: each of its three operations either returns
  or raises, and nothing is assumed about which. A tool sends one request to the
  client, so a client whose answers change from one call to the next is covered by the
  answer it gives to that request. \<open>get_customer_info\<close> returns the empty dictionary
  when the account has no row: \<open>None\<close> here. \<open>search\<close> receives the customer id the
  server holds, which may be Python's \<open>None\<close>.
\<close>

record 'm ads_client =
  list_accessible_customers :: "exn + customer list"
  get_customer_info :: "pystr \<Rightarrow> exn + account_info option"
  search :: "pystr option \<Rightarrow> pystr \<Rightarrow> exn + 'm row list"

text \<open>
  The query templates of \<open>GoogleAdsQueries\<close> (in \<open>google_ads/ads_queries.py\<close>) are
  f-strings over their arguments: total functions to text. The server only hands their
  result to \<open>search\<close>, so they are taken as they come.
\<close>

record ads_queries =
  get_campaigns_overview :: "pystr \<Rightarrow> pystr option \<Rightarrow> pystr"
  get_ad_groups_performance :: "pystr option \<Rightarrow> pystr \<Rightarrow> pystr"
  get_keywords_performance :: "pystr option \<Rightarrow> pystr \<Rightarrow> int \<Rightarrow> pystr"
  get_search_terms_report :: "pystr option \<Rightarrow> pystr \<Rightarrow> pystr"
  get_ads_performance :: "pystr option \<Rightarrow> pystr option \<Rightarrow> pystr \<Rightarrow> pystr"
  get_campaign_budget_info :: "pystr option \<Rightarrow> pystr"
  get_negative_keywords_query :: "pystr option \<Rightarrow> pystr"
  get_geographic_performance_query :: "pystr option \<Rightarrow> pystr \<Rightarrow> pystr"
  get_device_performance_query :: "pystr option \<Rightarrow> pystr \<Rightarrow> pystr"
  get_account_summary_query :: "pystr \<Rightarrow> pystr"
  diagnose_low_quality_score :: "int \<Rightarrow> pystr"
  diagnose_high_cost_low_conversion :: pystr
  find_disapproved_ads_query :: pystr

record 'm server =
  client :: "'m ads_client"
  queries :: ads_queries
  customer_id :: "pystr option"

subsection \<open>Envelopes\<close>

text \<open>
  A tool returns a dictionary: keys in insertion order, each with a value. The values
  are the ones the tools store.
\<close>

record tool_info =
  tool_name :: pystr
  tool_description :: pystr
  tool_parameters :: "(pystr \<times> pystr) list"

datatype 'm pyval =
    VNone
  | VBool bool
  | VInt int
  | VStr pystr
  | VEmptyDict
  | VRow "'m row"
  | VRows "'m row list"
  | VCustomers "customer list"
  | VAccount account_info
  | VTools "tool_info list"

type_synonym 'm envelope = "(pystr \<times> 'm pyval) list"

text \<open>The handler \<open>except Exception as e: return {'success': False, 'error': str(e)}\<close>.\<close>

definition error_envelope :: "exn \<Rightarrow> 'm envelope" where
  "error_envelope e = [(py ''success'', VBool False), (py ''error'', VStr (str_exn e))]"

text \<open>
  \<open>try: body except Exception as e: ...\<close>: the body either returns its envelope or
  raises, and the handler turns what it raised into the error envelope. (The handler
  also logs, which the model leaves out.)
\<close>

definition try_envelope :: "exn + 'm envelope \<Rightarrow> 'm envelope" where
  "try_envelope body = (case body of Inl e \<Rightarrow> error_envelope e | Inr env \<Rightarrow> env)"

text \<open>\<open>a or b\<close> on optional text: \<open>a\<close> when it is a text that is not empty, else \<open>b\<close>.\<close>

definition py_or :: "pystr option \<Rightarrow> pystr option \<Rightarrow> pystr option" where
  "py_or a b = (case a of None \<Rightarrow> b | Some s \<Rightarrow> if s = [] then b else a)"

subsection \<open>The tools\<close>

definition list_accounts :: "'m server \<Rightarrow> 'm envelope" where
  "list_accounts srv =
     try_envelope
       (case list_accessible_customers (client srv) of
          Inl e \<Rightarrow> Inl e
        | Inr customers \<Rightarrow>
            Inr [(py ''success'', VBool True),
                 (py ''count'', VInt (int (length customers))),
                 (py ''accounts'', VCustomers customers)])"

definition get_account_info_tool :: "'m server \<Rightarrow> pystr option \<Rightarrow> 'm envelope" where
  "get_account_info_tool srv cust =
     try_envelope
       (case py_or cust (customer_id srv) of
          None \<Rightarrow> Inr [(py ''success'', VBool False), (py ''error'', VStr (py ''No customer ID provided''))]
        | Some cid \<Rightarrow>
            if cid = [] then
              Inr [(py ''success'', VBool False), (py ''error'', VStr (py ''No customer ID provided''))]
            else
              (case get_customer_info (client srv) cid of
                 Inl e \<Rightarrow> Inl e
               | Inr info \<Rightarrow>
                   Inr [(py ''success'', VBool True),
                        (py ''account'', (case info of None \<Rightarrow> VEmptyDict | Some a \<Rightarrow> VAccount a))]))"

definition get_account_summary :: "'m server \<Rightarrow> pystr \<Rightarrow> 'm envelope" where
  "get_account_summary srv date_range =
     try_envelope
       (case search (client srv) (customer_id srv)
               (get_account_summary_query (queries srv) date_range) of
          Inl e \<Rightarrow> Inl e
        | Inr results \<Rightarrow>
            Inr [(py ''success'', VBool True),
                 (py ''summary'', (case results of [] \<Rightarrow> VEmptyDict | r # rs \<Rightarrow> VRow r)),
                 (py ''date_range'', VStr date_range)])"

definition get_campaigns :: "'m server \<Rightarrow> pystr \<Rightarrow> pystr option \<Rightarrow> 'm envelope" where
  "get_campaigns srv date_range status_filter =
     try_envelope
       (case search (client srv) (customer_id srv)
               (get_campaigns_overview (queries srv) date_range status_filter) of
          Inl e \<Rightarrow> Inl e
        | Inr results \<Rightarrow>
            Inr [(py ''success'', VBool True),
                 (py ''count'', VInt (int (length results))),
                 (py ''campaigns'', VRows results),
                 (py ''date_range'', VStr date_range)])"

text \<open>
  \<open>str(r.get('campaign', {}).get('id'))\<close>: the decimal id of the row's campaign, and
  \<open>None\<close> rendered as text when the row has no campaign.
\<close>

definition campaign_id_text :: "'m row \<Rightarrow> pystr" where
  "campaign_id_text r = (case campaign r of None \<Rightarrow> py ''None'' | Some c \<Rightarrow> str_int (ent_id c))"

definition get_campaign_performance :: "'m server \<Rightarrow> pystr \<Rightarrow> pystr \<Rightarrow> 'm envelope" where
  "get_campaign_performance srv campaign_id date_range =
     try_envelope
       (case search (client srv) (customer_id srv)
               (get_campaigns_overview (queries srv) date_range None) of
          Inl e \<Rightarrow> Inl e
        | Inr results \<Rightarrow>
            (let campaign_data = filter (\<lambda>r. campaign_id_text r = campaign_id) results
             in Inr [(py ''success'', VBool True),
                     (py ''campaign'', (case campaign_data of [] \<Rightarrow> VNone | r # rs \<Rightarrow> VRow r)),
                     (py ''date_range'', VStr date_range)]))"

definition get_campaign_budget :: "'m server \<Rightarrow> pystr option \<Rightarrow> 'm envelope" where
  "get_campaign_budget srv campaign_id =
     try_envelope
       (case search (client srv) (customer_id srv)
               (get_campaign_budget_info (queries srv) campaign_id) of
          Inl e \<Rightarrow> Inl e
        | Inr results \<Rightarrow>
            Inr [(py ''success'', VBool True),
                 (py ''count'', VInt (int (length results))),
                 (py ''budgets'', VRows results)])"

definition get_ad_groups :: "'m server \<Rightarrow> pystr option \<Rightarrow> pystr \<Rightarrow> 'm envelope" where
  "get_ad_groups srv campaign_id date_range =
     try_envelope
       (case search (client srv) (customer_id srv)
               (get_ad_groups_performance (queries srv) campaign_id date_range) of
          Inl e \<Rightarrow> Inl e
        | Inr results \<Rightarrow>
            Inr [(py ''success'', VBool True),
                 (py ''count'', VInt (int (length results))),
                 (py ''ad_groups'', VRows results),
                 (py ''date_range'', VStr date_range)])"

definition get_keywords :: "'m server \<Rightarrow> pystr option \<Rightarrow> pystr \<Rightarrow> int \<Rightarrow> 'm envelope" where
  "get_keywords srv campaign_id date_range min_impressions =
     try_envelope
       (case search (client srv) (customer_id srv)
               (get_keywords_performance (queries srv) campaign_id date_range min_impressions) of
          Inl e \<Rightarrow> Inl e
        | Inr results \<Rightarrow>
            Inr [(py ''success'', VBool True),
                 (py ''count'', VInt (int (length results))),
                 (py ''keywords'', VRows results),
                 (py ''date_range'', VStr date_range)])"

definition get_search_terms :: "'m server \<Rightarrow> pystr option \<Rightarrow> pystr \<Rightarrow> 'm envelope" where
  "get_search_terms srv campaign_id date_range =
     try_envelope
       (case search (client srv) (customer_id srv)
               (get_search_terms_report (queries srv) campaign_id date_range) of
          Inl e \<Rightarrow> Inl e
        | Inr results \<Rightarrow>
            Inr [(py ''success'', VBool True),
                 (py ''count'', VInt (int (length results))),
                 (py ''search_terms'', VRows results),
                 (py ''date_range'', VStr date_range)])"

definition get_negative_keywords :: "'m server \<Rightarrow> pystr option \<Rightarrow> 'm envelope" where
  "get_negative_keywords srv campaign_id =
     try_envelope
       (case search (client srv) (customer_id srv)
               (get_negative_keywords_query (queries srv) campaign_id) of
          Inl e \<Rightarrow> Inl e
        | Inr results \<Rightarrow>
            Inr [(py ''success'', VBool True),
                 (py ''count'', VInt (int (length results))),
                 (py ''negative_keywords'', VRows results)])"

definition get_ads :: "'m server \<Rightarrow> pystr option \<Rightarrow> pystr option \<Rightarrow> pystr \<Rightarrow> 'm envelope" where
  "get_ads srv campaign_id ad_group_id date_range =
     try_envelope
       (case search (client srv) (customer_id srv)
               (get_ads_performance (queries srv) campaign_id ad_group_id date_range) of
          Inl e \<Rightarrow> Inl e
        | Inr results \<Rightarrow>
            Inr [(py ''success'', VBool True),
                 (py ''count'', VInt (int (length results))),
                 (py ''ads'', VRows results),
                 (py ''date_range'', VStr date_range)])"

definition get_geographic_performance :: "'m server \<Rightarrow> pystr option \<Rightarrow> pystr \<Rightarrow> 'm envelope" where
  "get_geographic_performance srv campaign_id date_range =
     try_envelope
       (case search (client srv) (customer_id srv)
               (get_geographic_performance_query (queries srv) campaign_id date_range) of
          Inl e \<Rightarrow> Inl e
        | Inr results \<Rightarrow>
            Inr [(py ''success'', VBool True),
                 (py ''count'', VInt (int (length results))),
                 (py ''geographic_data'', VRows results),
                 (py ''date_range'', VStr date_range)])"

definition get_device_performance :: "'m server \<Rightarrow> pystr option \<Rightarrow> pystr \<Rightarrow> 'm envelope" where
  "get_device_performance srv campaign_id date_range =
     try_envelope
       (case search (client srv) (customer_id srv)
               (get_device_performance_query (queries srv) campaign_id date_range) of
          Inl e \<Rightarrow> Inl e
        | Inr results \<Rightarrow>
            Inr [(py ''success'', VBool True),
                 (py ''count'', VInt (int (length results))),
                 (py ''device_data'', VRows results),
                 (py ''date_range'', VStr date_range)])"

definition diagnose_low_quality_scores :: "'m server \<Rightarrow> int \<Rightarrow> 'm envelope" where
  "diagnose_low_quality_scores srv min_impressions =
     try_envelope
       (case search (client srv) (customer_id srv)
               (diagnose_low_quality_score (queries srv) min_impressions) of
          Inl e \<Rightarrow> Inl e
        | Inr results \<Rightarrow>
            Inr [(py ''success'', VBool True),
                 (py ''count'', VInt (int (length results))),
                 (py ''low_quality_keywords'', VRows results),
                 (py ''recommendation'',
                  VStr (py ''Review ad relevance, landing pages, and expected CTR''))])"

definition diagnose_high_cost_campaigns :: "'m server \<Rightarrow> 'm envelope" where
  "diagnose_high_cost_campaigns srv =
     try_envelope
       (case search (client srv) (customer_id srv)
               (diagnose_high_cost_low_conversion (queries srv)) of
          Inl e \<Rightarrow> Inl e
        | Inr results \<Rightarrow>
            Inr [(py ''success'', VBool True),
                 (py ''count'', VInt (int (length results))),
                 (py ''campaigns'', VRows results),
                 (py ''recommendation'',
                  VStr (py ''Review targeting, ad copy, and landing page conversion rate''))])"

definition find_disapproved_ads :: "'m server \<Rightarrow> 'm envelope" where
  "find_disapproved_ads srv =
     try_envelope
       (case search (client srv) (customer_id srv) (find_disapproved_ads_query (queries srv)) of
          Inl e \<Rightarrow> Inl e
        | Inr results \<Rightarrow>
            Inr [(py ''success'', VBool True),
                 (py ''count'', VInt (int (length results))),
                 (py ''disapproved_ads'', VRows results),
                 (py ''recommendation'',
                  VStr (py ''Review policy violations and update ad copy''))])"

definition run_custom_query :: "'m server \<Rightarrow> pystr \<Rightarrow> pystr option \<Rightarrow> 'm envelope" where
  "run_custom_query srv query cust =
     try_envelope
       (case search (client srv) (py_or cust (customer_id srv)) query of
          Inl e \<Rightarrow> Inl e
        | Inr results \<Rightarrow>
            Inr [(py ''success'', VBool True),
                 (py ''count'', VInt (int (length results))),
                 (py ''results'', VRows results)])"

text \<open>
  Where a template of \<open>GoogleAdsQueries\<close> has the name of a tool, the field of
  \<open>ads_queries\<close> has the suffix \<open>_query\<close>; \<open>get_account_info\<close> of the server is
  \<open>get_account_info_tool\<close>, the client's operation being \<open>get_customer_info\<close>.
\<close>

subsection \<open>The registry of tools\<close>

text \<open>
  \<open>_register_tools\<close> maps seventeen names to the methods above. A call through the
  registry is a name with its arguments.
\<close>

datatype tool_call =
    List_accounts
  | Get_account_info "pystr option"
  | Get_account_summary pystr
  | Get_campaigns pystr "pystr option"
  | Get_campaign_performance pystr pystr
  | Get_campaign_budget "pystr option"
  | Get_ad_groups "pystr option" pystr
  | Get_keywords "pystr option" pystr int
  | Get_search_terms "pystr option" pystr
  | Get_negative_keywords "pystr option"
  | Get_ads "pystr option" "pystr option" pystr
  | Get_geographic_performance "pystr option" pystr
  | Get_device_performance "pystr option" pystr
  | Diagnose_low_quality_scores int
  | Diagnose_high_cost_campaigns
  | Find_disapproved_ads
  | Run_custom_query pystr "pystr option"

fun registered_name :: "tool_call \<Rightarrow> pystr" where
  "registered_name List_accounts = py ''list_accounts''"
| "registered_name (Get_account_info c) = py ''get_account_info''"
| "registered_name (Get_account_summary d) = py ''get_account_summary''"
| "registered_name (Get_campaigns d s) = py ''get_campaigns''"
| "registered_name (Get_campaign_performance c d) = py ''get_campaign_performance''"
| "registered_name (Get_campaign_budget c) = py ''get_campaign_budget''"
| "registered_name (Get_ad_groups c d) = py ''get_ad_groups''"
| "registered_name (Get_keywords c d m) = py ''get_keywords''"
| "registered_name (Get_search_terms c d) = py ''get_search_terms''"
| "registered_name (Get_negative_keywords c) = py ''get_negative_keywords''"
| "registered_name (Get_ads c a d) = py ''get_ads''"
| "registered_name (Get_geographic_performance c d) = py ''get_geographic_performance''"
| "registered_name (Get_device_performance c d) = py ''get_device_performance''"
| "registered_name (Diagnose_low_quality_scores m) = py ''diagnose_low_quality_scores''"
| "registered_name Diagnose_high_cost_campaigns = py ''diagnose_high_cost_campaigns''"
| "registered_name Find_disapproved_ads = py ''find_disapproved_ads''"
| "registered_name (Run_custom_query q c) = py ''run_custom_query''"

fun call_tool :: "'m server \<Rightarrow> tool_call \<Rightarrow> 'm envelope" where
  "call_tool srv List_accounts = list_accounts srv"
| "call_tool srv (Get_account_info c) = get_account_info_tool srv c"
| "call_tool srv (Get_account_summary d) = get_account_summary srv d"
| "call_tool srv (Get_campaigns d s) = get_campaigns srv d s"
| "call_tool srv (Get_campaign_performance c d) = get_campaign_performance srv c d"
| "call_tool srv (Get_campaign_budget c) = get_campaign_budget srv c"
| "call_tool srv (Get_ad_groups c d) = get_ad_groups srv c d"
| "call_tool srv (Get_keywords c d m) = get_keywords srv c d m"
| "call_tool srv (Get_search_terms c d) = get_search_terms srv c d"
| "call_tool srv (Get_negative_keywords c) = get_negative_keywords srv c"
| "call_tool srv (Get_ads c a d) = get_ads srv c a d"
| "call_tool srv (Get_geographic_performance c d) = get_geographic_performance srv c d"
| "call_tool srv (Get_device_performance c d) = get_device_performance srv c d"
| "call_tool srv (Diagnose_low_quality_scores m) = diagnose_low_quality_scores srv m"
| "call_tool srv Diagnose_high_cost_campaigns = diagnose_high_cost_campaigns srv"
| "call_tool srv Find_disapproved_ads = find_disapproved_ads srv"
| "call_tool srv (Run_custom_query q c) = run_custom_query srv q c"

text \<open>
  The one request a call sends to the client, with its outcome (returned or raised); a
  call of \<open>get_account_info\<close> with no customer id sends none.
\<close>

fun client_request :: "'m server \<Rightarrow> tool_call \<Rightarrow> (exn + unit) option" where
  "client_request srv List_accounts =
     Some (map_sum id (\<lambda>r. ()) (list_accessible_customers (client srv)))"
| "client_request srv (Get_account_info c) =
     (case py_or c (customer_id srv) of
        None \<Rightarrow> None
      | Some cid \<Rightarrow> if cid = [] then None
                    else Some (map_sum id (\<lambda>r. ()) (get_customer_info (client srv) cid)))"
| "client_request srv (Get_account_summary d) =
     Some (map_sum id (\<lambda>r. ())
       (search (client srv) (customer_id srv) (get_account_summary_query (queries srv) d)))"
| "client_request srv (Get_campaigns d s) =
     Some (map_sum id (\<lambda>r. ())
       (search (client srv) (customer_id srv) (get_campaigns_overview (queries srv) d s)))"
| "client_request srv (Get_campaign_performance c d) =
     Some (map_sum id (\<lambda>r. ())
       (search (client srv) (customer_id srv) (get_campaigns_overview (queries srv) d None)))"
| "client_request srv (Get_campaign_budget c) =
     Some (map_sum id (\<lambda>r. ())
       (search (client srv) (customer_id srv) (get_campaign_budget_info (queries srv) c)))"
| "client_request srv (Get_ad_groups c d) =
     Some (map_sum id (\<lambda>r. ())
       (search (client srv) (customer_id srv) (get_ad_groups_performance (queries srv) c d)))"
| "client_request srv (Get_keywords c d m) =
     Some (map_sum id (\<lambda>r. ())
       (search (client srv) (customer_id srv) (get_keywords_performance (queries srv) c d m)))"
| "client_request srv (Get_search_terms c d) =
     Some (map_sum id (\<lambda>r. ())
       (search (client srv) (customer_id srv) (get_search_terms_report (queries srv) c d)))"
| "client_request srv (Get_negative_keywords c) =
     Some (map_sum id (\<lambda>r. ())
       (search (client srv) (customer_id srv) (get_negative_keywords_query (queries srv) c)))"
| "client_request srv (Get_ads c a d) =
     Some (map_sum id (\<lambda>r. ())
       (search (client srv) (customer_id srv) (get_ads_performance (queries srv) c a d)))"
| "client_request srv (Get_geographic_performance c d) =
     Some (map_sum id (\<lambda>r. ())
       (search (client srv) (customer_id srv) (get_geographic_performance_query (queries srv) c d)))"
| "client_request srv (Get_device_performance c d) =
     Some (map_sum id (\<lambda>r. ())
       (search (client srv) (customer_id srv) (get_device_performance_query (queries srv) c d)))"
| "client_request srv (Diagnose_low_quality_scores m) =
     Some (map_sum id (\<lambda>r. ())
       (search (client srv) (customer_id srv) (diagnose_low_quality_score (queries srv) m)))"
| "client_request srv Diagnose_high_cost_campaigns =
     Some (map_sum id (\<lambda>r. ())
       (search (client srv) (customer_id srv) (diagnose_high_cost_low_conversion (queries srv))))"
| "client_request srv Find_disapproved_ads =
     Some (map_sum id (\<lambda>r. ())
       (search (client srv) (customer_id srv) (find_disapproved_ads_query (queries srv))))"
| "client_request srv (Run_custom_query q c) =
     Some (map_sum id (\<lambda>r. ()) (search (client srv) (py_or c (customer_id srv)) q))"

subsection \<open>The router\<close>

text \<open>\<open>get_available_tools\<close>: the ten descriptions the source lists.\<close>

definition get_available_tools :: "tool_info list" where
  "get_available_tools =
     [\<lparr>tool_name = py ''list_accounts'',
       tool_description = py ''List all accessible Google Ads accounts'',
       tool_parameters = []\<rparr>,
      \<lparr>tool_name = py ''get_account_info'',
       tool_description = py ''Get detailed information about a specific account'',
       tool_parameters = [(py ''customer_id'', py ''string (optional)'')]\<rparr>,
      \<lparr>tool_name = py ''get_account_summary'',
       tool_description = py ''Get high-level performance summary for the account'',
       tool_parameters = [(py ''date_range'', py ''string (default: LAST_30_DAYS)'')]\<rparr>,
      \<lparr>tool_name = py ''get_campaigns'',
       tool_description = py ''Get all campaigns with performance metrics'',
       tool_parameters =
         [(py ''date_range'', py ''string (default: LAST_30_DAYS)''),
          (py ''status_filter'', py ''string (optional: ENABLED, PAUSED, REMOVED)'')]\<rparr>,
      \<lparr>tool_name = py ''get_campaign_performance'',
       tool_description = py ''Get detailed performance for a specific campaign'',
       tool_parameters =
         [(py ''campaign_id'', py ''string (required)''),
          (py ''date_range'', py ''string (default: LAST_30_DAYS)'')]\<rparr>,
      \<lparr>tool_name = py ''get_keywords'',
       tool_description = py ''Get keyword performance data'',
       tool_parameters =
         [(py ''campaign_id'', py ''string (optional)''),
          (py ''date_range'', py ''string (default: LAST_30_DAYS)''),
          (py ''min_impressions'', py ''int (default: 0)'')]\<rparr>,
      \<lparr>tool_name = py ''get_search_terms'',
       tool_description = py ''Get search terms report (actual searches)'',
       tool_parameters =
         [(py ''campaign_id'', py ''string (optional)''),
          (py ''date_range'', py ''string (default: LAST_7_DAYS)'')]\<rparr>,
      \<lparr>tool_name = py ''diagnose_low_quality_scores'',
       tool_description = py ''Find keywords with quality scores below 5'',
       tool_parameters = [(py ''min_impressions'', py ''int (default: 100)'')]\<rparr>,
      \<lparr>tool_name = py ''diagnose_high_cost_campaigns'',
       tool_description = py ''Find campaigns with high spend but low conversions'',
       tool_parameters = []\<rparr>,
      \<lparr>tool_name = py ''run_custom_query'',
       tool_description = py ''Execute a custom GAQL query'',
       tool_parameters =
         [(py ''query'', py ''string (required)''),
          (py ''customer_id'', py ''string (optional)'')]\<rparr>]"

text \<open>The envelope of a request that no rule matches.\<close>

definition unrecognized_envelope :: "'m envelope" where
  "unrecognized_envelope =
     [(py ''success'', VBool False),
      (py ''error'',
       VStr (py ''Could not understand request. Please use one of the available tools.'')),
      (py ''available_tools'', VTools get_available_tools)]"

text \<open>
  \<open>process_natural_language_request\<close>: the rules in the order of the source, each tool
  called with its default arguments.
\<close>

definition process_natural_language_request ::
  "(pystr \<Rightarrow> pystr) \<Rightarrow> 'm server \<Rightarrow> pystr \<Rightarrow> 'm envelope" where
  "process_natural_language_request lower srv request =
     (let request_lower = lower request in
      if list_ex (\<lambda>word. str_in word request_lower) [py ''accounts'', py ''list accounts'']
      then list_accounts srv
      else if str_in (py ''account summary'') request_lower \<or> str_in (py ''overview'') request_lower
      then get_account_summary srv (py ''LAST_30_DAYS'')
      else if str_in (py ''campaigns'') request_lower \<and> \<not> str_in (py ''performance'') request_lower
      then get_campaigns srv (py ''LAST_30_DAYS'') None
      else if str_in (py ''keywords'') request_lower then
        (if str_in (py ''low quality'') request_lower \<or> str_in (py ''quality score'') request_lower
         then diagnose_low_quality_scores srv 100
         else if str_in (py ''negative'') request_lower
         then get_negative_keywords srv None
         else get_keywords srv None (py ''LAST_30_DAYS'') 0)
      else if str_in (py ''search terms'') request_lower \<or> str_in (py ''search queries'') request_lower
      then get_search_terms srv None (py ''LAST_7_DAYS'')
      else if str_in (py ''high cost'') request_lower \<or> str_in (py ''expensive'') request_lower
      then diagnose_high_cost_campaigns srv
      else if str_in (py ''disapproved'') request_lower \<or> str_in (py ''rejected'') request_lower
      then find_disapproved_ads srv
      else if str_in (py ''geographic'') request_lower \<or> str_in (py ''location'') request_lower
      then get_geographic_performance srv None (py ''LAST_30_DAYS'')
      else if str_in (py ''device'') request_lower
      then get_device_performance srv None (py ''LAST_30_DAYS'')
      else unrecognized_envelope)"

section \<open>The generation adapter (ai/ai_generator.py)\<close>

subsection \<open>Parsed JSON\<close>

text \<open>
  What \<open>json.loads\<close> returns: \<open>None\<close>, a truth value, an integer, a float, a text, a
  list or a dictionary (keys in order). Floats are of an open type: no function here
  computes with them.
\<close>

datatype 'f json =
    JNull
  | JBool bool
  | JInt int
  | JFloat 'f
  | JStr pystr
  | JList "'f json list"
  | JDict "(pystr \<times> 'f json) list"

text \<open>
  \<open>json.loads\<close> itself belongs to Python's library: it is the parameter \<open>loads\<close> of
  the functions below. A call of it ends in one of three ways: it returns the parsed
  object, it raises \<open>json.JSONDecodeError\<close>, or it raises an exception of another class
  (\<open>RecursionError\<close> on a text nested deeper than the interpreter recurses, a plain
  \<open>ValueError\<close> on an integer of more digits than the interpreter converts). The
  source tells the last two apart: its handler names \<open>json.JSONDecodeError\<close>.
\<close>

datatype 'f loaded = Parsed "'f json" | JSONDecodeError | Raised exn

type_synonym 'f json_loads = "pystr \<Rightarrow> 'f loaded"

text \<open>The name of the type of a value, as Python prints it in a message.\<close>

fun type_name :: "'f json \<Rightarrow> pystr" where
  "type_name JNull = py ''NoneType''"
| "type_name (JBool b) = py ''bool''"
| "type_name (JInt i) = py ''int''"
| "type_name (JFloat x) = py ''float''"
| "type_name (JStr s) = py ''str''"
| "type_name (JList xs) = py ''list''"
| "type_name (JDict d) = py ''dict''"

text \<open>
  The truth value of a value in a condition: \<open>None\<close>, \<open>False\<close>, zero, the empty text,
  the empty list and the empty dictionary are false. The type of the floats has a zero,
  which stands for both zeros of Python.
\<close>

fun truthy :: "('f::zero) json \<Rightarrow> bool" where
  "truthy JNull = False"
| "truthy (JBool b) = b"
| "truthy (JInt i) = (i \<noteq> 0)"
| "truthy (JFloat x) = (x \<noteq> 0)"
| "truthy (JStr s) = (s \<noteq> [])"
| "truthy (JList xs) = (xs \<noteq> [])"
| "truthy (JDict d) = (d \<noteq> [])"

text \<open>
  \<open>obj.get(key, default)\<close>: a dictionary (which lists each key once) gives the value of
  the key or the default; every other value has no method \<open>get\<close>.
\<close>

definition py_get :: "'f json \<Rightarrow> pystr \<Rightarrow> 'f json \<Rightarrow> exn + 'f json" where
  "py_get obj key dflt =
     (case obj of
        JDict d \<Rightarrow> Inr (case map_of d key of None \<Rightarrow> dflt | Some v \<Rightarrow> v)
      | _ \<Rightarrow> Inl (AttributeError (msg_no_attribute (type_name obj) (py ''get''))))"

subsection \<open>Reading the response of a backend\<close>

text \<open>
  Lines 258 to 264 of \<open>generate_json\<close>: the response is stripped, a leading
  \<open>```json\<close> is cut (7 code points), then a leading \<open>```\<close> (3), then a trailing
  \<open>```\<close> (3); each test looks at the text the step before has left.
\<close>

definition strip_fences :: "pystr \<Rightarrow> pystr" where
  "strip_fences response =
     (let response = strip response;
          response = (if startswith response (py ''```json'') then drop 7 response else response);
          response = (if startswith response (py ''```'') then drop 3 response else response);
          response = (if endswith response (py ''```'') then take (length response - 3) response
                      else response)
      in response)"

text \<open>
  \<open>re.search(r'\{.*\}', response, re.DOTALL)\<close>: the leftmost match, as long as it can
  be. With a dot that matches every code point this is the text from the first opening
  brace (123) to the last closing brace (125) after it, and no match when no closing
  brace follows the first opening one.
\<close>

definition brace_span :: "pystr \<Rightarrow> pystr option" where
  "brace_span response =
     (case dropWhile (\<lambda>c. c \<noteq> 123) response of
        [] \<Rightarrow> None
      | c # rest \<Rightarrow>
          (case rev (dropWhile (\<lambda>c. c \<noteq> 125) (rev rest)) of
             [] \<Rightarrow> None
           | body \<Rightarrow> Some (c # body)))"

text \<open>
  "Ne udalos' rasparsit' JSON iz otveta: " (could not parse JSON from the response), the
  fixed part of the message of the \<open>ValueError\<close> that \<open>generate_json\<close> raises.
\<close>

definition msg_json_failed :: pystr where
  "msg_json_failed =
     [1053, 1077, 32, 1091, 1076, 1072, 1083, 1086, 1089, 1100, 32, 1088, 1072, 1089, 1087,
      1072, 1088, 1089, 1080, 1090, 1100, 32, 74, 83, 79, 78, 32, 1080, 1079, 32, 1086, 1090,
      1074, 1077, 1090, 1072, 58, 32]"

text \<open>
  Lines 255 to 278: the text left by \<open>strip_fences\<close> is stripped once more and parsed.
  An exception of the parse other than \<open>json.JSONDecodeError\<close> is not caught and leaves
  the function. On \<open>json.JSONDecodeError\<close> the brace span of the text left by
  \<open>strip_fences\<close> is parsed, under a handler that swallows every exception; when there
  is no span or its parse does not return, \<open>ValueError\<close> is raised with the first 200
  code points of that same text: the variable \<open>response\<close> holds, at that point, the
  response after \<open>strip_fences\<close>.
\<close>

definition parse_json_response :: "'f json_loads \<Rightarrow> pystr \<Rightarrow> exn + 'f json" where
  "parse_json_response loads raw =
     (let response = strip_fences raw in
      case loads (strip response) of
        Parsed obj \<Rightarrow> Inr obj
      | Raised e \<Rightarrow> Inl e
      | JSONDecodeError \<Rightarrow>
          (case brace_span response of
             None \<Rightarrow> Inl (ValueError (msg_json_failed @ take 200 response))
           | Some span \<Rightarrow>
               (case loads span of
                  Parsed obj \<Rightarrow> Inr obj
                | _ \<Rightarrow> Inl (ValueError (msg_json_failed @ take 200 response)))))"

subsection \<open>Calling a backend\<close>

text \<open>
  The five private methods \<open>_generate_openai\<close> \<open>\<dots>\<close> \<open>_generate_groq\<close> call the
  provider libraries. Each takes the prompt, the optional system prompt and the JSON
  mode flag, and returns the text of the reply (which a library may leave \<open>None\<close>) or
  raises. The temperature, 0.7 in every call made here, is left out.
\<close>

type_synonym backend = "pystr \<Rightarrow> pystr option \<Rightarrow> bool \<Rightarrow> exn + pystr option"

record backends =
  generate_openai :: backend
  generate_anthropic :: backend
  generate_google :: backend
  generate_ollama :: backend
  generate_groq :: backend

text \<open>
  \<open>generate\<close>: the chain of comparisons on \<open>self.provider\<close>; what a backend raises is
  logged and raised again; with no branch taken the method returns \<open>None\<close>.
\<close>

definition generate :: "backends \<Rightarrow> pystr \<Rightarrow> pystr \<Rightarrow> pystr option \<Rightarrow> bool \<Rightarrow> exn + pystr option" where
  "generate b provider prompt system_prompt json_mode =
     (if provider = py ''openai'' then generate_openai b prompt system_prompt json_mode
      else if provider = py ''anthropic'' then generate_anthropic b prompt system_prompt json_mode
      else if provider = py ''google'' then generate_google b prompt system_prompt json_mode
      else if provider = py ''ollama'' then generate_ollama b prompt system_prompt json_mode
      else if provider = py ''groq'' then generate_groq b prompt system_prompt json_mode
      else Inr None)"

text \<open>
  The instruction appended to every prompt of \<open>generate_json\<close>: two line feeds and
  "Verni rezul'tat TOL'KO v formate JSON, bez dopolnitel'nogo teksta." (return the
  result only as JSON, with no other text).
\<close>

definition json_instruction :: pystr where
  "json_instruction =
     [10, 10, 1042, 1077, 1088, 1085, 1080, 32, 1088, 1077, 1079, 1091, 1083, 1100, 1090,
      1072, 1090, 32, 1058, 1054, 1051, 1068, 1050, 1054, 32, 1074, 32, 1092, 1086, 1088,
      1084, 1072, 1090, 1077, 32, 74, 83, 79, 78, 44, 32, 1073, 1077, 1079, 32, 1076, 1086,
      1087, 1086, 1083, 1085, 1080, 1090, 1077, 1083, 1100, 1085, 1086, 1075, 1086, 32, 1090,
      1077, 1082, 1089, 1090, 1072, 46]"

text \<open>The message of Python for \<open>None.strip()\<close>.\<close>

definition msg_none_strip :: pystr where
  "msg_none_strip = msg_no_attribute (py ''NoneType'') (py ''strip'')"

text \<open>
  Lines 248 to 253 of \<open>generate_json\<close>: one call in JSON mode; when it raises, one
  call without the mode, whose exception is not caught.
\<close>

definition generate_with_retry ::
  "backends \<Rightarrow> pystr \<Rightarrow> pystr \<Rightarrow> pystr option \<Rightarrow> exn + pystr option" where
  "generate_with_retry b provider full_prompt system_prompt =
     (case generate b provider full_prompt system_prompt True of
        Inl e \<Rightarrow> generate b provider full_prompt system_prompt False
      | Inr response \<Rightarrow> Inr response)"

text \<open>
  \<open>generate_json\<close>: the instruction is appended to the prompt, the backend is called,
  and its reply is read. \<open>response.strip()\<close> on \<open>None\<close> raises \<open>AttributeError\<close>,
  which the handler of \<open>json.JSONDecodeError\<close> does not catch.
\<close>

definition generate_json ::
  "backends \<Rightarrow> 'f json_loads \<Rightarrow> pystr \<Rightarrow> pystr \<Rightarrow> pystr option \<Rightarrow> exn + 'f json" where
  "generate_json b loads provider prompt system_prompt =
     (let full_prompt = prompt @ json_instruction
      in case generate_with_retry b provider full_prompt system_prompt of
           Inl e \<Rightarrow> Inl e
         | Inr None \<Rightarrow> Inl (AttributeError msg_none_strip)
         | Inr (Some raw) \<Rightarrow> parse_json_response loads raw)"

subsection \<open>Keywords\<close>

text \<open>
  The FAB analysis that \<open>generate_keywords\<close> receives is what \<open>analyze_with_fab\<close>
  returned: the object \<open>json.loads\<close> made of the reply of the model, which nothing
  validates. It is any JSON value here.

  The prompt of \<open>FABMethodology.create_keyword_generation_prompt\<close> is an f-string over
  \<open>fab_analysis.get(...)\<close>: on a value that is not a dictionary the first \<open>get\<close> raises
  \<open>AttributeError\<close>; on a dictionary the text of the template comes out, or (the
  rendering of the values being Python's) an exception. The template and the English
  system prompt of \<open>generate_keywords\<close> only travel to the backend: they are taken as
  they come.
\<close>

record 'f keyword_prompts =
  keyword_template :: "(pystr \<times> 'f json) list \<Rightarrow> exn + pystr"
  keyword_system_prompt :: pystr

definition create_keyword_generation_prompt :: "'f keyword_prompts \<Rightarrow> 'f json \<Rightarrow> exn + pystr" where
  "create_keyword_generation_prompt prompts fab_analysis =
     (case fab_analysis of
        JDict d \<Rightarrow> keyword_template prompts d
      | _ \<Rightarrow> Inl (AttributeError (msg_no_attribute (type_name fab_analysis) (py ''get''))))"

text \<open>
  The heading put before the additional context: two line feeds, two asterisks,
  "Dopolnitel'nyj kontekst:" (additional context), two asterisks, a line feed.
\<close>

definition context_heading :: pystr where
  "context_heading =
     [10, 10, 42, 42, 1044, 1086, 1087, 1086, 1083, 1085, 1080, 1090, 1077, 1083, 1100, 1085,
      1099, 1081, 32, 1082, 1086, 1085, 1090, 1077, 1082, 1089, 1090, 58, 42, 42, 10]"

text \<open>A keyword record: the dictionary with its five keys.\<close>

definition keyword_record :: "pystr \<Rightarrow> pystr \<Rightarrow> pystr \<Rightarrow> pystr \<Rightarrow> pystr \<Rightarrow> 'f json" where
  "keyword_record keyword match_type search_volume commercial_intent category =
     JDict [(py ''keyword'', JStr keyword),
            (py ''match_type'', JStr match_type),
            (py ''search_volume'', JStr search_volume),
            (py ''commercial_intent'', JStr commercial_intent),
            (py ''category'', JStr category)]"

text \<open>The record appended for a word of the product name.\<close>

definition word_keyword :: "pystr \<Rightarrow> 'f json" where
  "word_keyword word =
     keyword_record word (py ''broad'') (py ''medium'') (py ''high'') (py ''transactional'')"

definition generic_keywords :: "'f json list" where
  "generic_keywords =
     [keyword_record (py ''buy'') (py ''phrase'') (py ''high'') (py ''high'') (py ''transactional''),
      keyword_record (py ''price'') (py ''phrase'') (py ''high'') (py ''high'') (py ''transactional''),
      keyword_record (py ''order'') (py ''phrase'') (py ''medium'') (py ''high'') (py ''transactional''),
      keyword_record (py ''services'') (py ''broad'') (py ''high'') (py ''medium'') (py ''informational'')]"

text \<open>
  The loop of \<open>_generate_fallback_keywords\<close> over the words, appending a record for
  each word longer than 3.
\<close>

fun append_word_keywords :: "'f json list \<Rightarrow> pystr list \<Rightarrow> 'f json list" where
  "append_word_keywords keywords [] = keywords"
| "append_word_keywords keywords (word # words) =
     append_word_keywords (if length word > 3 then keywords @ [word_keyword word] else keywords) words"

text \<open>
  \<open>words = product_name.lower().split()\<close> and the loop: a text has the method
  \<open>lower\<close>; every other value raises \<open>AttributeError\<close>.
\<close>

definition product_name_keywords ::
  "(pystr \<Rightarrow> pystr) \<Rightarrow> 'f json \<Rightarrow> 'f json list \<Rightarrow> exn + 'f json list" where
  "product_name_keywords lower product_name keywords =
     (case product_name of
        JStr s \<Rightarrow> Inr (append_word_keywords keywords (split (lower s)))
      | _ \<Rightarrow> Inl (AttributeError (msg_no_attribute (type_name product_name) (py ''lower''))))"

text \<open>
  \<open>_generate_fallback_keywords\<close>: the two reads of the analysis, the words of the
  product name when the product name is true in a condition, then the four generic
  records. What is raised here is raised inside the handler of \<open>generate_keywords\<close> and
  leaves it.
\<close>

definition generate_fallback_keywords ::
  "(pystr \<Rightarrow> pystr) \<Rightarrow> ('f::zero) json \<Rightarrow> exn + 'f json" where
  "generate_fallback_keywords lower fab_analysis =
     (case py_get fab_analysis (py ''product_name'') (JStr []) of
        Inl e \<Rightarrow> Inl e
      | Inr product_name \<Rightarrow>
          (case py_get fab_analysis (py ''target_audience'') (JStr []) of
             Inl e \<Rightarrow> Inl e
           | Inr target_audience \<Rightarrow>
               (case (if truthy product_name then product_name_keywords lower product_name []
                      else Inr []) of
                  Inl e \<Rightarrow> Inl e
                | Inr keywords \<Rightarrow> Inr (JDict [(py ''keywords'', JList (keywords @ generic_keywords))]))))"

text \<open>
  The lines of \<open>generate_keywords\<close> after the template: the heading and the additional
  context are appended when there is a context that is not empty.
\<close>

definition keyword_prompt :: "pystr \<Rightarrow> pystr option \<Rightarrow> pystr" where
  "keyword_prompt prompt additional_context =
     (case additional_context of
        None \<Rightarrow> prompt
      | Some ctx \<Rightarrow> if ctx \<noteq> [] then prompt @ context_heading @ ctx else prompt)"

text \<open>
  \<open>generate_keywords\<close>: the prompt is built outside the \<open>try\<close>, so what building it
  raises leaves the function; then the prompt goes to \<open>generate_json\<close> with the system
  prompt; whatever \<open>generate_json\<close> raises is caught (and logged) and the result of the
  fallback, returned or raised, is the result.
\<close>

definition generate_keywords ::
  "backends \<Rightarrow> 'f json_loads \<Rightarrow> (pystr \<Rightarrow> pystr) \<Rightarrow> 'f keyword_prompts \<Rightarrow> pystr \<Rightarrow> ('f::zero) json \<Rightarrow>
     pystr option \<Rightarrow> exn + 'f json" where
  "generate_keywords b loads lower prompts provider fab_analysis additional_context =
     (case create_keyword_generation_prompt prompts fab_analysis of
        Inl e \<Rightarrow> Inl e
      | Inr prompt \<Rightarrow>
          (case generate_json b loads provider (keyword_prompt prompt additional_context)
                  (Some (keyword_system_prompt prompts)) of
             Inr result \<Rightarrow> Inr result
           | Inl e \<Rightarrow> generate_fallback_keywords lower fab_analysis))"

subsection \<open>Construction\<close>

text \<open>The fields of \<open>Settings\<close> (config.py) that the constructor reads, and their defaults.\<close>

record settings =
  openai_api_key :: pystr
  anthropic_api_key :: pystr
  google_api_key :: pystr
  groq_api_key :: pystr
  ai_provider :: pystr
  ai_model :: pystr

definition default_settings :: settings where
  "default_settings =
     \<lparr>openai_api_key = [], anthropic_api_key = [], google_api_key = [], groq_api_key = [],
      ai_provider = py ''google'', ai_model = py ''gemini-2.0-flash''\<rparr>"

text \<open>
  The provider libraries are outside the repository. For each, the import either fails
  (\<open>None\<close>: \<open>ImportError\<close>) or gives what the constructor then calls with the configured
  key: the class \<open>OpenAI\<close>, \<open>Anthropic\<close> or \<open>Groq\<close>, or \<open>genai.configure\<close> (after which
  the module is the client). Each call returns a client or raises. \<open>ollama\<close> takes no
  key: the imported module is the client.
\<close>

record 'c libraries =
  import_openai :: "(pystr \<Rightarrow> exn + 'c) option"
  import_anthropic :: "(pystr \<Rightarrow> exn + 'c) option"
  import_google :: "(pystr \<Rightarrow> exn + 'c) option"
  import_ollama :: "'c option"
  import_groq :: "(pystr \<Rightarrow> exn + 'c) option"

text \<open>The object the constructor leaves: \<open>self.provider\<close>, \<open>self.model\<close>, \<open>self.client\<close>.\<close>

record 'c ai_generator =
  self_provider :: pystr
  self_model :: pystr
  self_client :: 'c

text \<open>"Ustanovite " (install), the head of the five \<open>ImportError\<close> messages.\<close>

definition msg_install :: pystr where
  "msg_install = [1059, 1089, 1090, 1072, 1085, 1086, 1074, 1080, 1090, 1077, 32]"

definition msg_install_package :: "string \<Rightarrow> pystr" where
  "msg_install_package package = msg_install @ py package @ py '': pip install '' @ py package"

text \<open>"Neizvestnyj provajder: " (unknown provider).\<close>

definition msg_unknown_provider :: pystr where
  "msg_unknown_provider =
     [1053, 1077, 1080, 1079, 1074, 1077, 1089, 1090, 1085, 1099, 1081, 32, 1087, 1088, 1086,
      1074, 1072, 1081, 1076, 1077, 1088, 58, 32]"

text \<open>
  One branch of the constructor: \<open>try: from lib import C; self.client = C(api_key=key)
  except ImportError: raise ImportError(message)\<close>. An \<open>ImportError\<close> of the import or
  of the call is replaced by the message; any other exception of the call goes through.
\<close>

definition init_client :: "(pystr \<Rightarrow> exn + 'c) option \<Rightarrow> pystr \<Rightarrow> string \<Rightarrow> exn + 'c" where
  "init_client imported key package =
     (case imported of
        None \<Rightarrow> Inl (ImportError (msg_install_package package))
      | Some construct \<Rightarrow>
          (case construct key of
             Inl (ImportError m) \<Rightarrow> Inl (ImportError (msg_install_package package))
           | Inl e \<Rightarrow> Inl e
           | Inr c \<Rightarrow> Inr c))"

text \<open>\<open>a or b\<close> with an optional text \<open>a\<close> and a text \<open>b\<close>.\<close>

definition or_default :: "pystr option \<Rightarrow> pystr \<Rightarrow> pystr" where
  "or_default a b = (case a of None \<Rightarrow> b | Some s \<Rightarrow> if s = [] then b else s)"

text \<open>
  \<open>AIGenerator.__init__\<close>: either an exception or the constructed object. The keys are
  handed to the libraries as they are configured; the constructor does not look at them.
\<close>

definition AIGenerator_init ::
  "'c libraries \<Rightarrow> settings \<Rightarrow> pystr option \<Rightarrow> pystr option \<Rightarrow> exn + 'c ai_generator" where
  "AIGenerator_init libs st provider_arg model_arg =
     (let the_provider = or_default provider_arg (ai_provider st);
          the_model = or_default model_arg (ai_model st);
          made =
            (if the_provider = py ''openai'' then
               init_client (import_openai libs) (openai_api_key st) ''openai''
             else if the_provider = py ''anthropic'' then
               init_client (import_anthropic libs) (anthropic_api_key st) ''anthropic''
             else if the_provider = py ''google'' then
               init_client (import_google libs) (google_api_key st) ''google-generativeai''
             else if the_provider = py ''ollama'' then
               (case import_ollama libs of
                  None \<Rightarrow> Inl (ImportError (msg_install_package ''ollama''))
                | Some c \<Rightarrow> Inr c)
             else if the_provider = py ''groq'' then
               init_client (import_groq libs) (groq_api_key st) ''groq''
             else Inl (ValueError (msg_unknown_provider @ the_provider)))
      in case made of
           Inl e \<Rightarrow> Inl e
         | Inr c \<Rightarrow> Inr \<lparr>self_provider = the_provider, self_model = the_model, self_client = c\<rparr>)"

section \<open>The router as a rule table\<close>

text \<open>
  The specification describes \<open>process_natural_language_request\<close> as a fixed, ordered
  table of tests on the lower-cased request, each with exactly one tool call, where the
  first test that holds decides. \<open>rule_table\<close> and \<open>first_match\<close> follow these words;
  the router of the source is compared with them below.
\<close>

type_synonym rule = "(pystr \<Rightarrow> bool) \<times> tool_call"

definition rule_table :: "rule list" where
  "rule_table =
     [(\<lambda>s. str_in (py ''accounts'') s \<or> str_in (py ''list accounts'') s, List_accounts),
      (\<lambda>s. str_in (py ''account summary'') s \<or> str_in (py ''overview'') s,
       Get_account_summary (py ''LAST_30_DAYS'')),
      (\<lambda>s. str_in (py ''campaigns'') s \<and> \<not> str_in (py ''performance'') s,
       Get_campaigns (py ''LAST_30_DAYS'') None),
      (\<lambda>s. str_in (py ''keywords'') s \<and>
            (str_in (py ''low quality'') s \<or> str_in (py ''quality score'') s),
       Diagnose_low_quality_scores 100),
      (\<lambda>s. str_in (py ''keywords'') s \<and> str_in (py ''negative'') s, Get_negative_keywords None),
      (\<lambda>s. str_in (py ''keywords'') s, Get_keywords None (py ''LAST_30_DAYS'') 0),
      (\<lambda>s. str_in (py ''search terms'') s \<or> str_in (py ''search queries'') s,
       Get_search_terms None (py ''LAST_7_DAYS'')),
      (\<lambda>s. str_in (py ''high cost'') s \<or> str_in (py ''expensive'') s,
       Diagnose_high_cost_campaigns),
      (\<lambda>s. str_in (py ''disapproved'') s \<or> str_in (py ''rejected'') s, Find_disapproved_ads),
      (\<lambda>s. str_in (py ''geographic'') s \<or> str_in (py ''location'') s,
       Get_geographic_performance None (py ''LAST_30_DAYS'')),
      (\<lambda>s. str_in (py ''device'') s, Get_device_performance None (py ''LAST_30_DAYS''))]"

fun first_match :: "rule list \<Rightarrow> pystr \<Rightarrow> tool_call option" where
  "first_match [] s = None"
| "first_match ((test, call) # rules) s = (if test s then Some call else first_match rules s)"

section \<open>Sample values\<close>

text \<open>
  Concrete values at which the theorems below are instantiated: query templates that
  all give one text, a client whose every operation raises, a client that finds
  nothing, and servers over them.
\<close>

definition constant_queries :: "pystr \<Rightarrow> ads_queries" where
  "constant_queries q =
     \<lparr>get_campaigns_overview = (\<lambda>d s. q),
      get_ad_groups_performance = (\<lambda>c d. q),
      get_keywords_performance = (\<lambda>c d m. q),
      get_search_terms_report = (\<lambda>c d. q),
      get_ads_performance = (\<lambda>c a d. q),
      get_campaign_budget_info = (\<lambda>c. q),
      get_negative_keywords_query = (\<lambda>c. q),
      get_geographic_performance_query = (\<lambda>c d. q),
      get_device_performance_query = (\<lambda>c d. q),
      get_account_summary_query = (\<lambda>d. q),
      diagnose_low_quality_score = (\<lambda>m. q),
      diagnose_high_cost_low_conversion = q,
      find_disapproved_ads_query = q\<rparr>"

definition raising_client :: "exn \<Rightarrow> unit ads_client" where
  "raising_client e =
     \<lparr>list_accessible_customers = Inl e,
      get_customer_info = (\<lambda>cid. Inl e),
      search = (\<lambda>cid q. Inl e)\<rparr>"

definition empty_client :: "unit ads_client" where
  "empty_client =
     \<lparr>list_accessible_customers = Inr [],
      get_customer_info = (\<lambda>cid. Inr None),
      search = (\<lambda>cid q. Inr [])\<rparr>"

definition raising_server :: "unit server" where
  "raising_server =
     \<lparr>client = raising_client (OtherError (py ''quota exceeded'')),
      queries = constant_queries (py ''SELECT campaign.id FROM campaign''),
      customer_id = Some (py ''1234567890'')\<rparr>"

definition empty_server :: "unit server" where
  "empty_server =
     \<lparr>client = empty_client,
      queries = constant_queries (py ''SELECT campaign.id FROM campaign''),
      customer_id = Some (py ''1234567890'')\<rparr>"

section \<open>JSON texts\<close>

text \<open>
  What the claims about fenced JSON need of a valid JSON text: \<open>json.loads\<close> reads it
  once the white space around it is stripped, and, by the grammar of JSON, the stripped
  text begins with the first code point of a value (an opening brace or bracket, a double
  quote, a minus sign, a digit, or the first letter of \<open>true\<close>, \<open>false\<close>, \<open>null\<close>, and of
  \<open>NaN\<close> and \<open>Infinity\<close>, which Python reads too) and ends with the last code point of
  one (a closing brace or bracket, a double quote, a digit, or the last letter of these
  words).
\<close>

definition json_first :: "nat list" where
  "json_first = [123, 91, 34, 45] @ py ''0123456789tfnNI''"

definition json_last :: "nat list" where
  "json_last = [125, 93, 34] @ py ''0123456789elNy''"

definition json_delimited :: "pystr \<Rightarrow> bool" where
  "json_delimited s \<longleftrightarrow> s \<noteq> [] \<and> hd s \<in> set json_first \<and> last s \<in> set json_last"

definition valid_json_text :: "'f json_loads \<Rightarrow> pystr \<Rightarrow> bool" where
  "valid_json_text loads doc \<longleftrightarrow>
     (\<exists>obj. loads (strip doc) = Parsed obj) \<and> json_delimited (strip doc)"

section \<open>Sample values of the adapter\<close>

text \<open>
  A decoder for the instances below. It reads the two texts \<open>{}\<close> and
  \<open>{"keywords": []}\<close> as \<open>json.loads\<close> does, raises \<open>RecursionError\<close> on a text that
  begins with a thousand opening brackets, as \<open>json.loads\<close> does under the recursion
  limit of 1000, and raises \<open>json.JSONDecodeError\<close> on every other text; the instances
  apply it only to texts of the first three kinds and to texts on which \<open>json.loads\<close>
  raises \<open>json.JSONDecodeError\<close> as well. No float occurs: the type of the floats is
  \<open>int\<close>.
\<close>

definition keywords_text :: pystr where
  "keywords_text = [123, 34] @ py ''keywords'' @ [34] @ py '': []}''"

definition msg_recursion :: pystr where
  "msg_recursion =
     py ''maximum recursion depth exceeded while decoding a JSON array from a unicode string''"

definition sample_loads :: "int json_loads" where
  "sample_loads s =
     (if s = py ''{}'' then Parsed (JDict [])
      else if s = keywords_text then Parsed (JDict [(py ''keywords'', JList [])])
      else if 1000 \<le> length s \<and> list_all (\<lambda>c. c = 91) (take 1000 s)
      then Raised (RecursionError msg_recursion)
      else JSONDecodeError)"

text \<open>
  Two responses that open a thousand arrays: one with nothing else, one followed by a
  space and the object \<open>{}\<close>.
\<close>

definition deep_array :: pystr where
  "deep_array = replicate 1000 91"

definition deep_array_then_object :: pystr where
  "deep_array_then_object = replicate 1000 91 @ py '' {}''"

text \<open>Backends that all raise the same exception, and backends that all reply one text.\<close>

definition raising_backends :: "exn \<Rightarrow> backends" where
  "raising_backends e =
     \<lparr>generate_openai = (\<lambda>p s j. Inl e),
      generate_anthropic = (\<lambda>p s j. Inl e),
      generate_google = (\<lambda>p s j. Inl e),
      generate_ollama = (\<lambda>p s j. Inl e),
      generate_groq = (\<lambda>p s j. Inl e)\<rparr>"

definition replying_backends :: "pystr \<Rightarrow> backends" where
  "replying_backends reply =
     \<lparr>generate_openai = (\<lambda>p s j. Inr (Some reply)),
      generate_anthropic = (\<lambda>p s j. Inr (Some reply)),
      generate_google = (\<lambda>p s j. Inr (Some reply)),
      generate_ollama = (\<lambda>p s j. Inr (Some reply)),
      generate_groq = (\<lambda>p s j. Inr (Some reply))\<rparr>"

definition sample_prompts :: "int keyword_prompts" where
  "sample_prompts =
     \<lparr>keyword_template =
        (\<lambda>d. Inr (py ''Name: '' @ (case map_of d (py ''product_name'') of
                                      Some (JStr s) \<Rightarrow> s | _ \<Rightarrow> []))),
      keyword_system_prompt = py ''You are an expert in SEO and Google Ads contextual advertising.''\<rparr>"

text \<open>An analysis with a product name, and one whose product name is the number 2024.\<close>

definition sample_fab :: "(pystr \<times> int json) list" where
  "sample_fab =
     [(py ''product_name'', JStr (py ''Ergonomic Office Chair Pro'')),
      (py ''target_audience'', JStr (py ''office workers''))]"

definition numeric_fab :: "(pystr \<times> int json) list" where
  "numeric_fab = [(py ''product_name'', JInt 2024)]"

text \<open>
  Provider libraries that are all installed and whose constructors take any key, the
  empty one too.
\<close>

definition lenient_libraries :: "unit libraries" where
  "lenient_libraries =
     \<lparr>import_openai = Some (\<lambda>key. Inr ()),
      import_anthropic = Some (\<lambda>key. Inr ()),
      import_google = Some (\<lambda>key. Inr ()),
      import_ollama = Some (),
      import_groq = Some (\<lambda>key. Inr ())\<rparr>"

text \<open>The five provider names the constructor knows.\<close>

definition known_providers :: "pystr list" where
  "known_providers = [py ''openai'', py ''anthropic'', py ''google'', py ''ollama'', py ''groq'']"

text \<open>The two fence markers that \<open>strip_fences\<close> looks for.\<close>

definition fence_json :: pystr where
  "fence_json = py ''```json''"

definition fence :: pystr where
  "fence = py ''```''"

section \<open>Properties of the validators\<close>

lemma length_ellipsis: "length ellipsis = 3"
  by (simp add: ellipsis_def)

lemma truncate_headline_short:
  "length s \<le> HEADLINE_MAX_LENGTH \<Longrightarrow> truncate_headline s = s"
  by (simp add: truncate_headline_def)

lemma truncate_headline_long:
  assumes "HEADLINE_MAX_LENGTH < length s"
  shows "length (truncate_headline s) = HEADLINE_MAX_LENGTH"
    and "suffix ellipsis (truncate_headline s)"
  using assms
  by (simp_all add: truncate_headline_def HEADLINE_MAX_LENGTH_def length_ellipsis suffix_def)

lemma truncate_description_short:
  "length s \<le> DESCRIPTION_MAX_LENGTH \<Longrightarrow> truncate_description s = s"
  by (simp add: truncate_description_def)

lemma truncate_description_long:
  assumes "DESCRIPTION_MAX_LENGTH < length s"
  shows "length (truncate_description s) = DESCRIPTION_MAX_LENGTH"
    and "suffix ellipsis (truncate_description s)"
  using assms
  by (simp_all add: truncate_description_def DESCRIPTION_MAX_LENGTH_def length_ellipsis suffix_def)

lemma truncate_headline_idem: "truncate_headline (truncate_headline s) = truncate_headline s"
proof (cases "length s \<le> HEADLINE_MAX_LENGTH")
  case True
  then show ?thesis by (simp add: truncate_headline_short)
next
  case False
  then have "length (truncate_headline s) \<le> HEADLINE_MAX_LENGTH"
    by (simp add: truncate_headline_long(1))
  then show ?thesis by (rule truncate_headline_short)
qed

lemma truncate_description_idem:
  "truncate_description (truncate_description s) = truncate_description s"
proof (cases "length s \<le> DESCRIPTION_MAX_LENGTH")
  case True
  then show ?thesis by (simp add: truncate_description_short)
next
  case False
  then have "length (truncate_description s) \<le> DESCRIPTION_MAX_LENGTH"
    by (simp add: truncate_description_long(1))
  then show ?thesis by (rule truncate_description_short)
qed

text \<open>
  Claim C6. A text at or under the limit (30 code points for \<open>truncate_headline\<close>, 90
  for \<open>truncate_description\<close>) is returned unchanged; a longer one gives a result of
  length at most the limit that ends with the marker \<open>...\<close>; both functions are
  idempotent.
\<close>

theorem truncate_limits_idempotent:
  "(length s \<le> 30 \<longrightarrow> truncate_headline s = s) \<and>
   (30 < length s \<longrightarrow> length (truncate_headline s) \<le> 30 \<and> suffix (py ''...'') (truncate_headline s)) \<and>
   truncate_headline (truncate_headline s) = truncate_headline s \<and>
   (length s \<le> 90 \<longrightarrow> truncate_description s = s) \<and>
   (90 < length s \<longrightarrow> length (truncate_description s) \<le> 90 \<and> suffix (py ''...'') (truncate_description s)) \<and>
   truncate_description (truncate_description s) = truncate_description s"
proof -
  have e: "py ''...'' = ellipsis" by (simp add: ellipsis_def)
  have h: "HEADLINE_MAX_LENGTH = 30" by (simp add: HEADLINE_MAX_LENGTH_def)
  have d: "DESCRIPTION_MAX_LENGTH = 90" by (simp add: DESCRIPTION_MAX_LENGTH_def)
  show ?thesis
    using truncate_headline_short [of s] truncate_headline_long [of s] truncate_headline_idem [of s]
      truncate_description_short [of s] truncate_description_long [of s]
      truncate_description_idem [of s]
    unfolding e h d by simp
qed

theorem truncate_limits_idempotent_witness:
  "length (py ''Buy shoes'') \<le> 30 \<and> length (py ''Buy shoes'') \<le> 90 \<and>
   truncate_headline (py ''Buy shoes'') = py ''Buy shoes'' \<and>
   truncate_description (py ''Buy shoes'') = py ''Buy shoes'' \<and>
   30 < length (replicate 91 (120::nat)) \<and> 90 < length (replicate 91 (120::nat)) \<and>
   length (truncate_headline (replicate 91 120)) \<le> 30 \<and>
   suffix (py ''...'') (truncate_headline (replicate 91 120)) \<and>
   length (truncate_description (replicate 91 120)) \<le> 90 \<and>
   suffix (py ''...'') (truncate_description (replicate 91 120))"
  using truncate_limits_idempotent [of "py ''Buy shoes''"]
    truncate_limits_idempotent [of "replicate 91 120"]
  by simp

lemma validate_headline_empty: "validate_headline [] = (False, msg_headline_empty)"
  by (simp add: validate_headline_def)

lemma validate_description_empty: "validate_description [] = (False, msg_description_empty)"
  by (simp add: validate_description_def)

lemma validate_path_empty: "validate_path alnum [] = (True, msg_ok)"
  by (simp add: validate_path_def)

lemma path1_prefix_distinct:
  "\<not> prefix ad_path1_prefix (ad_headline_prefix @ m)"
  "\<not> prefix ad_path1_prefix (ad_description_prefix @ m)"
  "\<not> prefix ad_path1_prefix (ad_path2_prefix @ m)"
  by (simp_all add: ad_path1_prefix_def ad_headline_prefix_def ad_description_prefix_def
      ad_path2_prefix_def)

lemma path2_prefix_distinct:
  "\<not> prefix ad_path2_prefix (ad_headline_prefix @ m)"
  "\<not> prefix ad_path2_prefix (ad_description_prefix @ m)"
  "\<not> prefix ad_path2_prefix (ad_path1_prefix @ m)"
  by (simp_all add: ad_path2_prefix_def ad_headline_prefix_def ad_description_prefix_def
      ad_path1_prefix_def)

lemma validate_ad_parts:
  "validate_ad alnum h d p1 p2 =
     ad_err ad_headline_prefix (validate_headline h) @
     ad_err ad_description_prefix (validate_description d) @
     (if p1 \<noteq> [] then ad_err ad_path1_prefix (validate_path alnum p1) else []) @
     (if p2 \<noteq> [] then ad_err ad_path2_prefix (validate_path alnum p2) else [])"
  by (simp add: validate_ad_def ad_err_def split: prod.split)

lemma ad_err_prefix: "e \<in> set (ad_err p r) \<Longrightarrow> \<exists>m. e = p @ m"
  by (simp add: ad_err_def split: if_splits)

lemma validate_ad_no_path1_error:
  assumes "e \<in> set (validate_ad alnum h d [] p2)"
  shows "\<not> prefix ad_path1_prefix e"
proof -
  from assms have "(\<exists>m. e = ad_headline_prefix @ m) \<or> (\<exists>m. e = ad_description_prefix @ m)
      \<or> (\<exists>m. e = ad_path2_prefix @ m)"
    by (auto simp: validate_ad_parts dest: ad_err_prefix split: if_splits)
  then show ?thesis
    by (auto simp: path1_prefix_distinct)
qed

lemma validate_ad_no_path2_error:
  assumes "e \<in> set (validate_ad alnum h d p1 [])"
  shows "\<not> prefix ad_path2_prefix e"
proof -
  from assms have "(\<exists>m. e = ad_headline_prefix @ m) \<or> (\<exists>m. e = ad_description_prefix @ m)
      \<or> (\<exists>m. e = ad_path1_prefix @ m)"
    by (auto simp: validate_ad_parts dest: ad_err_prefix split: if_splits)
  then show ?thesis
    by (auto simp: path2_prefix_distinct)
qed

lemma validate_ad_empty_headline:
  "ad_headline_prefix @ msg_headline_empty \<in> set (validate_ad alnum [] d p1 p2)"
  by (simp add: validate_ad_parts validate_headline_empty ad_err_def)

lemma validate_ad_empty_description:
  "ad_description_prefix @ msg_description_empty \<in> set (validate_ad alnum h [] p1 p2)"
  by (simp add: validate_ad_parts validate_description_empty ad_err_def)

text \<open>
  Claim C10. The empty text is treated asymmetrically: \<open>validate_path\<close> accepts it
  (the path is optional), \<open>validate_headline\<close> and \<open>validate_description\<close> reject it
  with a message that is not empty; so \<open>validate_ad\<close> reports no error of path 1 when
  path 1 is empty and none of path 2 when path 2 is empty, and it always reports the
  error of an empty headline and of an empty description.
\<close>

theorem empty_text_asymmetry:
  "validate_path alnum [] = (True, py ''OK'') \<and>
   fst (validate_headline []) = False \<and> snd (validate_headline []) \<noteq> [] \<and>
   fst (validate_description []) = False \<and> snd (validate_description []) \<noteq> [] \<and>
   (\<forall>e \<in> set (validate_ad alnum h d [] p2). \<not> prefix ad_path1_prefix e) \<and>
   (\<forall>e \<in> set (validate_ad alnum h d p1 []). \<not> prefix ad_path2_prefix e) \<and>
   ad_headline_prefix @ snd (validate_headline []) \<in> set (validate_ad alnum [] d p1 p2) \<and>
   ad_description_prefix @ snd (validate_description []) \<in> set (validate_ad alnum h [] p1 p2)"
proof -
  have "snd (validate_headline []) \<noteq> []"
    by (simp add: validate_headline_empty msg_headline_empty_def)
  moreover have "snd (validate_description []) \<noteq> []"
    by (simp add: validate_description_empty msg_description_empty_def)
  ultimately show ?thesis
    using validate_ad_no_path1_error [of _ alnum h d p2]
      validate_ad_no_path2_error [of _ alnum h d p1]
      validate_ad_empty_headline [of alnum d p1 p2]
      validate_ad_empty_description [of alnum h p1 p2]
    by (simp add: validate_path_empty validate_headline_empty validate_description_empty
        msg_ok_def)
qed

text \<open>
  The claim at an advertisement whose four fields are all empty: the two errors named
  are in the list, and neither is an error of a path.
\<close>

theorem empty_text_asymmetry_witness:
  "ad_headline_prefix @ msg_headline_empty \<in> set (validate_ad (\<lambda>c. True) [] [] [] []) \<and>
   \<not> prefix ad_path1_prefix (ad_headline_prefix @ msg_headline_empty) \<and>
   \<not> prefix ad_path2_prefix (ad_headline_prefix @ msg_headline_empty) \<and>
   ad_description_prefix @ msg_description_empty \<in> set (validate_ad (\<lambda>c. True) [] [] [] []) \<and>
   validate_ad (\<lambda>c. True) [] [] [] [] =
     [ad_headline_prefix @ msg_headline_empty, ad_description_prefix @ msg_description_empty]"
proof -
  have v: "validate_ad (\<lambda>c. True) [] [] [] [] =
     [ad_headline_prefix @ msg_headline_empty, ad_description_prefix @ msg_description_empty]"
    by (simp add: validate_ad_parts ad_err_def validate_headline_empty validate_description_empty)
  show ?thesis
    using empty_text_asymmetry [of "\<lambda>c. True" "[]" "[]" "[]" "[]"]
    by (simp add: v validate_headline_empty validate_description_empty)
qed

section \<open>Properties of Python text\<close>

lemma startswith_iff: "startswith s p \<longleftrightarrow> (\<exists>q. s = p @ q)"
  by (induction s p rule: startswith.induct) auto

lemma str_in_iff: "str_in sub s \<longleftrightarrow> (\<exists>p q. s = p @ sub @ q)"
proof (induction s)
  case Nil
  then show ?case by auto
next
  case (Cons c cs)
  show ?case
  proof
    assume "str_in sub (c # cs)"
    then consider "startswith (c # cs) sub" | "str_in sub cs" by auto
    then show "\<exists>p q. c # cs = p @ sub @ q"
    proof cases
      case 1
      then obtain q where "c # cs = sub @ q" by (auto simp: startswith_iff)
      then have "c # cs = [] @ sub @ q" by simp
      then show ?thesis by blast
    next
      case 2
      then obtain p q where "cs = p @ sub @ q" using Cons.IH by auto
      then have "c # cs = (c # p) @ sub @ q" by simp
      then show ?thesis by blast
    qed
  next
    assume "\<exists>p q. c # cs = p @ sub @ q"
    then obtain p q where pq: "c # cs = p @ sub @ q" by auto
    show "str_in sub (c # cs)"
    proof (cases p)
      case Nil
      then have "startswith (c # cs) sub" using pq by (auto simp: startswith_iff)
      then show ?thesis by simp
    next
      case (Cons a p')
      then have "cs = p' @ sub @ q" using pq by simp
      then have "str_in sub cs" using Cons.IH by blast
      then show ?thesis by simp
    qed
  qed
qed

lemma str_in_append_left:
  assumes "str_in (a @ b) s"
  shows "str_in b s"
proof -
  from assms obtain p q where "s = p @ (a @ b) @ q" by (auto simp: str_in_iff)
  then have "s = (p @ a) @ b @ q" by simp
  then show ?thesis unfolding str_in_iff by blast
qed

section \<open>Properties of the tool server\<close>

lemmas tool_defs =
  list_accounts_def get_account_info_tool_def get_account_summary_def get_campaigns_def
  get_campaign_performance_def get_campaign_budget_def get_ad_groups_def get_keywords_def
  get_search_terms_def get_negative_keywords_def get_ads_def get_geographic_performance_def
  get_device_performance_def diagnose_low_quality_scores_def diagnose_high_cost_campaigns_def
  find_disapproved_ads_def run_custom_query_def

lemma tool_success:
  "\<exists>b. map_of (call_tool srv tc) (py ''success'') = Some (VBool b)"
  by (cases tc)
    (auto simp: tool_defs try_envelope_def error_envelope_def Let_def
      split: sum.splits option.splits)

lemma tool_raises:
  "client_request srv tc = Some (Inl e) \<Longrightarrow> call_tool srv tc = error_envelope e"
  by (cases tc)
    (auto simp: tool_defs try_envelope_def Let_def split: sum.splits option.splits if_splits)

text \<open>
  Claim C1. Every call through the registry, whatever the client does, returns a
  dictionary whose key \<open>success\<close> holds a truth value; no exception leaves the call
  (\<open>call_tool\<close> returns an envelope, the body that may raise being under
  \<open>try_envelope\<close>); and when the request the call sends to the client raises \<open>e\<close>, the
  envelope is \<open>{success: False, error: str(e)}\<close>.
\<close>

theorem tool_call_envelope:
  "(\<exists>b. map_of (call_tool srv tc) (py ''success'') = Some (VBool b)) \<and>
   (\<forall>e. client_request srv tc = Some (Inl e) \<longrightarrow>
        call_tool srv tc = [(py ''success'', VBool False), (py ''error'', VStr (str_exn e))])"
  using tool_success [of srv tc] tool_raises [of srv tc]
  by (simp add: error_envelope_def)

text \<open>
  The claim at a server whose client raises "quota exceeded" on every request, for a
  call of \<open>get_keywords\<close>.
\<close>

theorem tool_call_envelope_witness:
  "client_request raising_server (Get_keywords None (py ''LAST_30_DAYS'') 0)
     = Some (Inl (OtherError (py ''quota exceeded''))) \<and>
   call_tool raising_server (Get_keywords None (py ''LAST_30_DAYS'') 0)
     = [(py ''success'', VBool False), (py ''error'', VStr (py ''quota exceeded''))]"
proof -
  have r: "client_request raising_server (Get_keywords None (py ''LAST_30_DAYS'') 0)
     = Some (Inl (OtherError (py ''quota exceeded'')))"
    by (simp add: raising_server_def raising_client_def)
  show ?thesis
    using tool_call_envelope [of raising_server "Get_keywords None (py ''LAST_30_DAYS'') 0"] r
    by simp
qed

lemma process_first_match:
  "process_natural_language_request lower srv request =
     (case first_match rule_table (lower request) of
        None \<Rightarrow> unrecognized_envelope
      | Some call \<Rightarrow> call_tool srv call)"
  by (simp add: process_natural_language_request_def rule_table_def Let_def)

lemma ascii_lower_low_quality:
  "is_ascii (py ''Show me keywords with low quality'')"
  "ascii_lower (py ''Show me keywords with low quality'') = py ''show me keywords with low quality''"
  by (simp_all add: is_ascii_def ascii_lower_def)

lemma ascii_lower_banana:
  "is_ascii (py ''banana'')"
  "ascii_lower (py ''banana'') = py ''banana''"
  by (simp_all add: is_ascii_def ascii_lower_def)

lemma first_match_low_quality:
  "first_match rule_table (py ''show me keywords with low quality'')
     = Some (Diagnose_low_quality_scores 100)"
  by (simp add: rule_table_def)

lemma first_match_banana: "first_match rule_table (py ''banana'') = None"
  by (simp add: rule_table_def)

lemma lower_on_ascii_ascii_lower: "lower_on_ascii ascii_lower"
  by (simp add: lower_on_ascii_def)

text \<open>
  Claim C7. The router is the rule table read in order, the first rule that matches the
  lower-cased request deciding the tool call. "Show me keywords with low quality" goes
  to \<open>diagnose_low_quality_scores\<close> (with its default argument) and not to
  \<open>get_keywords\<close>; "banana" matches no rule and gets the envelope with \<open>success\<close> false
  and the list of available tools. Of \<open>lower\<close> only its values on ASCII text are used.
\<close>

theorem router_rule_table:
  assumes "lower_on_ascii lower"
  shows "process_natural_language_request lower srv request =
     (case first_match rule_table (lower request) of
        None \<Rightarrow> unrecognized_envelope
      | Some call \<Rightarrow> call_tool srv call) \<and>
   first_match rule_table (lower (py ''Show me keywords with low quality''))
     = Some (Diagnose_low_quality_scores 100) \<and>
   first_match rule_table (lower (py ''Show me keywords with low quality''))
     \<noteq> Some (Get_keywords None (py ''LAST_30_DAYS'') 0) \<and>
   process_natural_language_request lower srv (py ''Show me keywords with low quality'')
     = diagnose_low_quality_scores srv 100 \<and>
   first_match rule_table (lower (py ''banana'')) = None \<and>
   process_natural_language_request lower srv (py ''banana'')
     = [(py ''success'', VBool False),
        (py ''error'',
         VStr (py ''Could not understand request. Please use one of the available tools.'')),
        (py ''available_tools'', VTools get_available_tools)]"
proof -
  have q: "lower (py ''Show me keywords with low quality'') = py ''show me keywords with low quality''"
    using assms ascii_lower_low_quality unfolding lower_on_ascii_def by metis
  have n: "lower (py ''banana'') = py ''banana''"
    using assms ascii_lower_banana unfolding lower_on_ascii_def by metis
  show ?thesis
    by (simp only: process_first_match q n first_match_low_quality first_match_banana
        unrecognized_envelope_def call_tool.simps option.simps tool_call.simps simp_thms)
qed

text \<open>
  The claim at a server whose client finds nothing, with \<open>ascii_lower\<close>: the request
  about low quality gets the envelope of the diagnostic, with the key
  \<open>low_quality_keywords\<close>, which differs from the envelope of \<open>get_keywords\<close>.
\<close>

theorem router_rule_table_witness:
  "lower_on_ascii ascii_lower \<and>
   process_natural_language_request ascii_lower empty_server
       (py ''Show me keywords with low quality'')
     = [(py ''success'', VBool True), (py ''count'', VInt 0),
        (py ''low_quality_keywords'', VRows []),
        (py ''recommendation'',
         VStr (py ''Review ad relevance, landing pages, and expected CTR''))] \<and>
   process_natural_language_request ascii_lower empty_server
       (py ''Show me keywords with low quality'')
     \<noteq> get_keywords empty_server None (py ''LAST_30_DAYS'') 0"
proof -
  have d: "diagnose_low_quality_scores empty_server 100
     = [(py ''success'', VBool True), (py ''count'', VInt 0),
        (py ''low_quality_keywords'', VRows []),
        (py ''recommendation'',
         VStr (py ''Review ad relevance, landing pages, and expected CTR''))]"
    by (simp add: diagnose_low_quality_scores_def try_envelope_def empty_server_def
        empty_client_def)
  have k: "get_keywords empty_server None (py ''LAST_30_DAYS'') 0
     = [(py ''success'', VBool True), (py ''count'', VInt 0), (py ''keywords'', VRows []),
        (py ''date_range'', VStr (py ''LAST_30_DAYS''))]"
    by (simp add: get_keywords_def try_envelope_def empty_server_def empty_client_def)
  from router_rule_table [OF lower_on_ascii_ascii_lower, of empty_server "[]"]
  have r: "process_natural_language_request ascii_lower empty_server
       (py ''Show me keywords with low quality'')
     = diagnose_low_quality_scores empty_server 100"
    by blast
  show ?thesis unfolding r d k using lower_on_ascii_ascii_lower by simp
qed

lemma not_list_accounts:
  assumes "\<not> str_in (py ''accounts'') s"
  shows "\<not> str_in (py ''list accounts'') s"
proof
  assume "str_in (py ''list accounts'') s"
  then have "str_in (py ''list '' @ py ''accounts'') s" by simp
  then have "str_in (py ''accounts'') s" by (rule str_in_append_left)
  with assms show False by simp
qed

text \<open>
  Claim C9. A request whose lower-casing contains both "campaigns" and "performance"
  and none of the other routing keywords calls no tool: the rule of the campaigns
  excludes "performance", no later rule matches, and the answer is the envelope of the
  request that was not understood, with \<open>success\<close> false. This holds whatever the case
  mapping \<open>lower\<close> is.
\<close>

theorem campaigns_performance_unrecognized:
  assumes "str_in (py ''campaigns'') (lower request)"
    and "str_in (py ''performance'') (lower request)"
    and "\<not> str_in (py ''accounts'') (lower request)"
    and "\<not> str_in (py ''account summary'') (lower request)"
    and "\<not> str_in (py ''overview'') (lower request)"
    and "\<not> str_in (py ''keywords'') (lower request)"
    and "\<not> str_in (py ''search terms'') (lower request)"
    and "\<not> str_in (py ''search queries'') (lower request)"
    and "\<not> str_in (py ''high cost'') (lower request)"
    and "\<not> str_in (py ''expensive'') (lower request)"
    and "\<not> str_in (py ''disapproved'') (lower request)"
    and "\<not> str_in (py ''rejected'') (lower request)"
    and "\<not> str_in (py ''geographic'') (lower request)"
    and "\<not> str_in (py ''location'') (lower request)"
    and "\<not> str_in (py ''device'') (lower request)"
  shows "first_match rule_table (lower request) = None \<and>
    process_natural_language_request lower srv request = unrecognized_envelope \<and>
    map_of (process_natural_language_request lower srv request) (py ''success'')
      = Some (VBool False)"
proof -
  have la: "\<not> str_in (py ''list accounts'') (lower request)"
    using assms(3) by (rule not_list_accounts)
  have m: "first_match rule_table (lower request) = None"
    unfolding rule_table_def first_match.simps
    using assms la by (simp only: simp_thms if_True if_False)
  have p: "process_natural_language_request lower srv request = unrecognized_envelope"
    by (simp only: process_first_match m option.simps)
  have s: "map_of (unrecognized_envelope :: 'a envelope) (py ''success'') = Some (VBool False)"
    by (simp add: unrecognized_envelope_def)
  show ?thesis using m p s by simp
qed

lemma ascii_lower_campaigns_performance:
  "ascii_lower (py ''Campaigns performance'') = py ''campaigns performance''"
  by (simp add: ascii_lower_def)

text \<open>The claim at the request "Campaigns performance", with \<open>ascii_lower\<close>.\<close>

theorem campaigns_performance_unrecognized_witness:
  "str_in (py ''campaigns'') (ascii_lower (py ''Campaigns performance'')) \<and>
   str_in (py ''performance'') (ascii_lower (py ''Campaigns performance'')) \<and>
   process_natural_language_request ascii_lower raising_server (py ''Campaigns performance'')
     = unrecognized_envelope \<and>
   map_of (process_natural_language_request ascii_lower raising_server
             (py ''Campaigns performance''))
     (py ''success'') = Some (VBool False)"
proof -
  have h: "str_in (py ''campaigns'') (py ''campaigns performance'')"
    "str_in (py ''performance'') (py ''campaigns performance'')"
    "\<not> str_in (py ''accounts'') (py ''campaigns performance'')"
    "\<not> str_in (py ''account summary'') (py ''campaigns performance'')"
    "\<not> str_in (py ''overview'') (py ''campaigns performance'')"
    "\<not> str_in (py ''keywords'') (py ''campaigns performance'')"
    "\<not> str_in (py ''search terms'') (py ''campaigns performance'')"
    "\<not> str_in (py ''search queries'') (py ''campaigns performance'')"
    "\<not> str_in (py ''high cost'') (py ''campaigns performance'')"
    "\<not> str_in (py ''expensive'') (py ''campaigns performance'')"
    "\<not> str_in (py ''disapproved'') (py ''campaigns performance'')"
    "\<not> str_in (py ''rejected'') (py ''campaigns performance'')"
    "\<not> str_in (py ''geographic'') (py ''campaigns performance'')"
    "\<not> str_in (py ''location'') (py ''campaigns performance'')"
    "\<not> str_in (py ''device'') (py ''campaigns performance'')"
    by simp_all
  show ?thesis
    using campaigns_performance_unrecognized
      [of ascii_lower "py ''Campaigns performance''" raising_server]
    unfolding ascii_lower_campaigns_performance
    using h by blast
qed

section \<open>Properties of the adapter\<close>

subsection \<open>Stripping\<close>

lemma dropWhile_hd_id: "xs \<noteq> [] \<Longrightarrow> \<not> P (hd xs) \<Longrightarrow> dropWhile P xs = xs"
  by (cases xs) auto

lemma strip_fixed:
  assumes "s = [] \<or> (\<not> isspace (hd s) \<and> \<not> isspace (last s))"
  shows "strip s = s"
proof (cases s)
  case Nil
  then show ?thesis by (simp add: strip_def)
next
  case (Cons c cs)
  with assms have h: "\<not> isspace (hd s)" and l: "\<not> isspace (last s)" by auto
  have d: "dropWhile isspace s = s" using Cons h by simp
  have "rev s \<noteq> []" using Cons by simp
  moreover have "hd (rev s) = last s" using Cons by (simp add: hd_rev)
  ultimately have "dropWhile isspace (rev s) = rev s" using l
    by (simp add: dropWhile_hd_id)
  then show ?thesis by (simp add: strip_def d)
qed

lemma strip_split:
  "\<exists>a b. s = a @ strip s @ b \<and> (\<forall>c \<in> set a. isspace c) \<and> (\<forall>c \<in> set b. isspace c)"
proof -
  let ?d = "dropWhile isspace s"
  have 1: "s = takeWhile isspace s @ ?d" by simp
  have 2: "?d = strip s @ rev (takeWhile isspace (rev ?d))"
    unfolding strip_def by (metis rev_append rev_rev_ident takeWhile_dropWhile_id)
  have 3: "\<forall>c \<in> set (takeWhile isspace s). isspace c" by (auto dest: set_takeWhileD)
  have 4: "\<forall>c \<in> set (rev (takeWhile isspace (rev ?d))). isspace c" by (auto dest: set_takeWhileD)
  from 1 2 have "s = takeWhile isspace s @ strip s @ rev (takeWhile isspace (rev ?d))" by simp
  with 3 4 show ?thesis by blast
qed

lemma strip_ends:
  "strip s = [] \<or> (\<not> isspace (hd (strip s)) \<and> \<not> isspace (last (strip s)))"
proof (cases "strip s = []")
  case True
  then show ?thesis by simp
next
  case False
  let ?d = "dropWhile isspace s"
  let ?r = "dropWhile isspace (rev ?d)"
  have r: "?r \<noteq> []" using False by (simp add: strip_def)
  then have "\<not> isspace (hd ?r)" by (rule hd_dropWhile)
  then have l: "\<not> isspace (last (strip s))" using r by (simp add: strip_def last_rev)
  have "rev ?d \<noteq> []" using r by (metis dropWhile.simps(1))
  then have dne: "?d \<noteq> []" by simp
  then have hd: "\<not> isspace (hd ?d)" by (rule hd_dropWhile)
  obtain b where "?d = strip s @ b"
    by (metis append_take_drop_id rev_append rev_rev_ident strip_def takeWhile_dropWhile_id)
  then have "hd ?d = hd (strip s)" using False by (metis hd_append2)
  with hd l show ?thesis by simp
qed

lemma strip_idem: "strip (strip s) = strip s"
  using strip_ends [of s] by (rule strip_fixed)

lemma startswith_append: "startswith (p @ q) p"
  by (simp add: startswith_iff)

lemma endswith_iff: "endswith s p \<longleftrightarrow> (\<exists>q. s = q @ p)"
proof
  assume "endswith s p"
  then obtain q where "rev s = rev p @ q" by (auto simp: endswith_def startswith_iff)
  then have "rev (rev s) = rev (rev p @ q)" by simp
  then have "s = rev q @ p" by simp
  then show "\<exists>q. s = q @ p" by blast
next
  assume "\<exists>q. s = q @ p"
  then show "endswith s p" by (auto simp: endswith_def startswith_iff)
qed

lemma startswith_hd: "p \<noteq> [] \<Longrightarrow> s \<noteq> [] \<Longrightarrow> hd s \<noteq> hd p \<Longrightarrow> \<not> startswith s p"
  by (cases s; cases p) auto

lemma endswith_last: "p \<noteq> [] \<Longrightarrow> s \<noteq> [] \<Longrightarrow> last s \<noteq> last p \<Longrightarrow> \<not> endswith s p"
  by (auto simp: endswith_iff)

lemma cut_prefix:
  "\<exists>p. s = p @ (if startswith s f then drop (length f) s else s) \<and> (p = [] \<or> p = f)"
  by (auto simp: startswith_iff)

lemma cut_suffix:
  "\<exists>q. s = (if endswith s f then take (length s - length f) s else s) @ q \<and> (q = [] \<or> q = f)"
  by (auto simp: endswith_iff)

lemma length_fences: "length fence_json = 7" "length fence = 3"
  by (simp_all add: fence_json_def fence_def)

lemma strip_fences_alt:
  "strip_fences raw =
     (let r0 = strip raw;
          r1 = (if startswith r0 fence_json then drop (length fence_json) r0 else r0);
          r2 = (if startswith r1 fence then drop (length fence) r1 else r1)
      in (if endswith r2 fence then take (length r2 - length fence) r2 else r2))"
  by (simp only: strip_fences_def length_fences Let_def flip: fence_json_def fence_def)

lemma isspace_chars: "\<not> isspace 96" "\<not> isspace 106" "\<not> isspace 123" "\<not> isspace 125"
  by (simp_all add: isspace_def)

lemma strip_fences_split:
  "\<exists>a b. raw = a @ strip_fences raw @ b \<and> 123 \<notin> set a \<and> 125 \<notin> set a \<and> 123 \<notin> set b \<and> 125 \<notin> set b
      \<and> ((raw = [] \<or> \<not> isspace (hd raw)) \<and> \<not> startswith raw fence \<longrightarrow> a = [])"
proof -
  define r0 where "r0 = strip raw"
  define r1 where "r1 = (if startswith r0 fence_json then drop (length fence_json) r0 else r0)"
  define r2 where "r2 = (if startswith r1 fence then drop (length fence) r1 else r1)"
  define r3 where "r3 = (if endswith r2 fence then take (length r2 - length fence) r2 else r2)"
  have sf: "strip_fences raw = r3"
    unfolding strip_fences_alt Let_def r3_def r2_def r1_def r0_def by (rule refl)
  obtain a0 b0 where 0: "raw = a0 @ r0 @ b0" "\<forall>c \<in> set a0. isspace c" "\<forall>c \<in> set b0. isspace c"
    using strip_split [of raw] unfolding r0_def by blast
  obtain p1 where 1: "r0 = p1 @ r1" "p1 = [] \<or> p1 = fence_json"
    using cut_prefix [of r0 fence_json] unfolding r1_def by blast
  obtain p2 where 2: "r1 = p2 @ r2" "p2 = [] \<or> p2 = fence"
    using cut_prefix [of r1 fence] unfolding r2_def by blast
  obtain q3 where 3: "r2 = r3 @ q3" "q3 = [] \<or> q3 = fence"
    using cut_suffix [of r2 fence] unfolding r3_def by blast
  have nb: "123 \<notin> set a0" "125 \<notin> set a0" "123 \<notin> set b0" "125 \<notin> set b0"
    using 0 isspace_chars by auto
  have nf: "123 \<notin> set p1" "125 \<notin> set p1" "123 \<notin> set p2" "125 \<notin> set p2"
    "123 \<notin> set q3" "125 \<notin> set q3"
    using 1 2 3 by (auto simp: fence_json_def fence_def)
  have eq: "raw = (a0 @ p1 @ p2) @ r3 @ (q3 @ b0)"
    using 0 1 2 3 by simp
  have a_empty: "a0 @ p1 @ p2 = []"
    if h: "raw = [] \<or> \<not> isspace (hd raw)" and f: "\<not> startswith raw fence"
  proof -
    have a0: "a0 = []"
    proof (rule ccontr)
      assume "a0 \<noteq> []"
      then have "hd raw = hd a0" "hd a0 \<in> set a0" "raw \<noteq> []" using 0(1) by auto
      with 0(2) h show False by auto
    qed
    have nsw: "\<not> startswith r0 fence"
    proof
      assume "startswith r0 fence"
      then obtain q where "r0 = fence @ q" by (auto simp: startswith_iff)
      then have "raw = fence @ (q @ b0)" using 0(1) a0 by simp
      then have "startswith raw fence" unfolding startswith_iff by blast
      with f show False by simp
    qed
    have fj: "fence_json = fence @ py ''json''" by (simp add: fence_json_def fence_def)
    have "\<not> startswith r0 fence_json"
    proof
      assume "startswith r0 fence_json"
      then obtain q where "r0 = fence_json @ q" by (auto simp: startswith_iff)
      then have "r0 = fence @ (py ''json'' @ q)" by (simp add: fj)
      then have "startswith r0 fence" unfolding startswith_iff by blast
      with nsw show False by simp
    qed
    then have r1: "r1 = r0" by (simp add: r1_def)
    then have p1: "p1 = []" using 1(1) by simp
    have r2: "r2 = r1" using nsw r1 by (simp add: r2_def)
    then have "p2 = []" using 2(1) by simp
    with a0 p1 show ?thesis by simp
  qed
  define a where "a = a0 @ p1 @ p2"
  define b where "b = q3 @ b0"
  have e: "raw = a @ strip_fences raw @ b" unfolding sf a_def b_def by (rule eq)
  have na: "123 \<notin> set a" "125 \<notin> set a" using nb nf by (simp_all add: a_def)
  have nbb: "123 \<notin> set b" "125 \<notin> set b" using nb nf by (simp_all add: b_def)
  have ae: "(raw = [] \<or> \<not> isspace (hd raw)) \<and> \<not> startswith raw fence \<longrightarrow> a = []"
    using a_empty by (simp only: a_def) blast
  from e na nbb ae show ?thesis by blast
qed

subsection \<open>The brace span\<close>

lemma dropWhile_skip:
  "c \<notin> set xs \<Longrightarrow> dropWhile (\<lambda>x. x \<noteq> c) (xs @ ys) = dropWhile (\<lambda>x. x \<noteq> c) ys"
  by (induction xs) auto

lemma dropWhile_stay:
  "c \<in> set xs \<Longrightarrow> dropWhile (\<lambda>x. x \<noteq> c) (xs @ ys) = dropWhile (\<lambda>x. x \<noteq> c) xs @ ys"
  by (induction xs) auto

lemma brace_span_found:
  assumes "123 \<notin> set pre" and "125 \<notin> set post"
  shows "brace_span (pre @ 123 # body @ 125 # post) = Some (123 # body @ [125])"
proof -
  have d: "dropWhile (\<lambda>c. c \<noteq> 123) (pre @ 123 # body @ 125 # post) = 123 # body @ 125 # post"
    using assms(1) by (simp add: dropWhile_skip)
  have "dropWhile (\<lambda>c. c \<noteq> 125) (rev (body @ 125 # post))
      = dropWhile (\<lambda>c. c \<noteq> 125) (rev post @ 125 # rev body)"
    by simp
  also have "\<dots> = 125 # rev body"
    using assms(2) by (simp add: dropWhile_skip)
  finally have r: "rev (dropWhile (\<lambda>c. c \<noteq> 125) (rev (body @ 125 # post))) = body @ [125]"
    by simp
  have "brace_span (pre @ 123 # body @ 125 # post)
      = (case rev (dropWhile (\<lambda>c. c \<noteq> 125) (rev (body @ 125 # post))) of
           [] \<Rightarrow> None | x # xs \<Rightarrow> Some (123 # x # xs))"
    by (simp only: brace_span_def d list.case)
  then show ?thesis unfolding r by (cases body) simp_all
qed

lemma brace_span_pad:
  assumes "123 \<notin> set a" and "123 \<notin> set b" and "125 \<notin> set b"
  shows "brace_span (a @ s @ b) = brace_span s"
proof -
  have a: "dropWhile (\<lambda>c. c \<noteq> 123) (a @ s @ b) = dropWhile (\<lambda>c. c \<noteq> 123) (s @ b)"
    using assms(1) by (simp add: dropWhile_skip)
  show ?thesis
  proof (cases "123 \<in> set s")
    case False
    then have e: "dropWhile (\<lambda>c. c \<noteq> 123) (s @ b) = []" "dropWhile (\<lambda>c. c \<noteq> 123) s = []"
      using assms(2) by auto
    show ?thesis unfolding brace_span_def a e by simp
  next
    case True
    then have sb: "dropWhile (\<lambda>c. c \<noteq> 123) (s @ b) = dropWhile (\<lambda>c. c \<noteq> 123) s @ b"
      by (simp add: dropWhile_stay)
    from True obtain c rest where cr: "dropWhile (\<lambda>c. c \<noteq> 123) s = c # rest"
      by (cases "dropWhile (\<lambda>c. c \<noteq> 123) s") auto
    have "dropWhile (\<lambda>c. c \<noteq> 125) (rev (rest @ b)) = dropWhile (\<lambda>c. c \<noteq> 125) (rev rest)"
      using assms(3) by (simp add: dropWhile_skip)
    then show ?thesis by (simp add: brace_span_def a sb cr)
  qed
qed

lemma brace_span_strip_fences: "brace_span (strip_fences raw) = brace_span raw"
proof -
  obtain a b where "raw = a @ strip_fences raw @ b" "123 \<notin> set a" "123 \<notin> set b" "125 \<notin> set b"
    using strip_fences_split [of raw] by blast
  then show ?thesis using brace_span_pad [of a b "strip_fences raw"] by simp
qed

lemma brace_span_shape:
  assumes "brace_span s = Some span"
  shows "\<exists>pre body post. s = pre @ 123 # body @ 125 # post \<and> span = 123 # body @ [125]
     \<and> 123 \<notin> set pre \<and> 125 \<notin> set post"
proof -
  let ?d = "dropWhile (\<lambda>c. c \<noteq> 123) s"
  from assms obtain c rest where cr: "?d = c # rest"
    by (cases ?d) (auto simp: brace_span_def)
  have c: "c = 123" using hd_dropWhile [of "\<lambda>c. c \<noteq> 123" s] cr by simp
  let ?b = "rev (dropWhile (\<lambda>c. c \<noteq> 125) (rev rest))"
  have bs: "brace_span s = (case ?b of [] \<Rightarrow> None | x # xs \<Rightarrow> Some (c # x # xs))"
    by (simp add: brace_span_def cr)
  from assms bs have bne: "?b \<noteq> []" and sp: "span = c # ?b"
    by (cases ?b; simp)+
  have "dropWhile (\<lambda>c. c \<noteq> 125) (rev rest) \<noteq> []" using bne by simp
  then have "hd (dropWhile (\<lambda>c. c \<noteq> 125) (rev rest)) = 125"
    using hd_dropWhile [of "\<lambda>c. c \<noteq> 125" "rev rest"] by simp
  then have lb: "last ?b = 125" using bne by (simp add: last_rev)
  define body where "body = butlast ?b"
  have b: "?b = body @ [125]" using bne lb unfolding body_def by (metis append_butlast_last_id)
  define post where "post = rev (takeWhile (\<lambda>c. c \<noteq> 125) (rev rest))"
  have rest: "rest = ?b @ post"
    unfolding post_def by (metis rev_append rev_rev_ident takeWhile_dropWhile_id)
  have np: "125 \<notin> set post" unfolding post_def by (auto dest: set_takeWhileD)
  define pre where "pre = takeWhile (\<lambda>c. c \<noteq> 123) s"
  have npre: "123 \<notin> set pre" unfolding pre_def by (auto dest: set_takeWhileD)
  have "s = pre @ ?d" unfolding pre_def by simp
  then have "s = pre @ 123 # body @ 125 # post" using cr c rest b by simp
  moreover have "span = 123 # body @ [125]" using sp c b by simp
  ultimately show ?thesis using npre np by blast
qed

lemma brace_span_exists:
  assumes "s = pre @ 123 # body @ 125 # post"
  shows "brace_span s \<noteq> None"
proof -
  let ?d = "dropWhile (\<lambda>c. c \<noteq> 123) s"
  have "\<exists>c rest. ?d = c # rest \<and> 125 \<in> set rest"
  proof (cases "123 \<in> set pre")
    case False
    then have "?d = 123 # body @ 125 # post" using assms by (simp add: dropWhile_skip)
    then show ?thesis by simp
  next
    case True
    then have "?d = dropWhile (\<lambda>c. c \<noteq> 123) pre @ 123 # body @ 125 # post"
      using assms by (simp add: dropWhile_stay)
    moreover from True obtain c r where "dropWhile (\<lambda>c. c \<noteq> 123) pre = c # r"
      by (cases "dropWhile (\<lambda>c. c \<noteq> 123) pre") auto
    ultimately show ?thesis by simp
  qed
  then obtain c rest where cr: "?d = c # rest" and m: "125 \<in> set rest" by blast
  from m have "dropWhile (\<lambda>c. c \<noteq> 125) (rev rest) \<noteq> []" by simp
  then show ?thesis by (simp add: brace_span_def cr split: list.splits)
qed

lemma brace_span_None_iff:
  "brace_span s = None \<longleftrightarrow> \<not> (\<exists>pre body post. s = pre @ 123 # body @ 125 # post)"
  using brace_span_shape [of s] brace_span_exists [of s] by (cases "brace_span s") blast+

subsection \<open>Reading a response\<close>

lemma json_delimited_edges:
  assumes "json_delimited s"
  shows "s \<noteq> []" "hd s \<noteq> 96" "hd s \<noteq> 106" "last s \<noteq> 96"
proof -
  have f: "96 \<notin> set json_first" "106 \<notin> set json_first" by (simp_all add: json_first_def)
  have l: "96 \<notin> set json_last" by (simp add: json_last_def)
  from assms have m: "s \<noteq> []" "hd s \<in> set json_first" "last s \<in> set json_last"
    by (simp_all add: json_delimited_def)
  show "s \<noteq> []" by (rule m(1))
  show "hd s \<noteq> 96" using f(1) m(2) by metis
  show "hd s \<noteq> 106" using f(2) m(2) by metis
  show "last s \<noteq> 96" using l m(3) by metis
qed

lemma hd_unstripped:
  assumes "strip s \<noteq> []"
  shows "s \<noteq> [] \<and> (hd s = hd (strip s) \<or> isspace (hd s))"
proof -
  obtain a b where ab: "s = a @ strip s @ b" "\<forall>c \<in> set a. isspace c"
    using strip_split [of s] by blast
  show ?thesis
  proof (cases a)
    case Nil
    with ab assms show ?thesis by (metis append_Nil hd_append2 append_is_Nil_conv)
  next
    case (Cons c cs)
    with ab show ?thesis by (metis hd_append2 list.sel(1) list.set_intros(1) list.distinct(1) append_is_Nil_conv)
  qed
qed

lemma strip_fences_plain:
  assumes "json_delimited (strip doc)"
  shows "strip_fences doc = strip doc"
proof -
  note e = json_delimited_edges [OF assms]
  have 1: "\<not> startswith (strip doc) fence_json"
    using e by (intro startswith_hd) (simp_all add: fence_json_def)
  have 2: "\<not> startswith (strip doc) fence"
    using e by (intro startswith_hd) (simp_all add: fence_def)
  have 3: "\<not> endswith (strip doc) fence"
    using e by (intro endswith_last) (simp_all add: fence_def)
  show ?thesis by (simp add: strip_fences_alt Let_def 1 2 3)
qed

lemma strip_fenced:
  "strip (fence_json @ doc @ fence) = fence_json @ doc @ fence"
  "strip (fence @ doc @ fence) = fence @ doc @ fence"
  by (rule strip_fixed, simp add: fence_json_def fence_def isspace_def)+

lemma strip_fences_json_fence:
  assumes "json_delimited (strip doc)"
  shows "strip_fences (fence_json @ doc @ fence) = doc"
proof -
  note e = json_delimited_edges [OF assms]
  from hd_unstripped [of doc] e have t: "doc \<noteq> []" "hd doc \<noteq> 96"
    using isspace_chars by auto
  have 1: "startswith (fence_json @ doc @ fence) fence_json" by (rule startswith_append)
  have 2: "\<not> startswith (doc @ fence) fence"
    using t by (intro startswith_hd) (simp_all add: fence_def)
  have 3: "endswith (doc @ fence) fence" by (auto simp: endswith_iff)
  show ?thesis by (simp add: strip_fences_alt Let_def strip_fenced 1 2 3)
qed

lemma strip_fences_plain_fence:
  assumes "json_delimited (strip doc)"
  shows "strip_fences (fence @ doc @ fence) = doc"
proof -
  note e = json_delimited_edges [OF assms]
  from hd_unstripped [of doc] e have t: "doc \<noteq> []" "hd doc \<noteq> 106"
    using isspace_chars by auto
  have fj: "fence_json = fence @ py ''json''" by (simp add: fence_json_def fence_def)
  have 1: "\<not> startswith (fence @ doc @ fence) fence_json"
  proof
    assume "startswith (fence @ doc @ fence) fence_json"
    then obtain q where "fence @ doc @ fence = fence @ py ''json'' @ q"
      by (auto simp: startswith_iff fj)
    then have "doc @ fence = py ''json'' @ q" by simp
    then have "hd (doc @ fence) = 106" by simp
    with t show False by simp
  qed
  have 2: "startswith (fence @ doc @ fence) fence" by (rule startswith_append)
  have 3: "endswith (doc @ fence) fence" by (auto simp: endswith_iff)
  show ?thesis by (simp add: strip_fences_alt Let_def strip_fenced 1 2 3)
qed

text \<open>
  Claim C2. For every valid JSON text, reading the text wrapped in a leading
  \<open>```json\<close> (or a plain leading \<open>```\<close>) and a trailing \<open>```\<close> gives exactly the
  object that reading the unwrapped text gives.
\<close>

theorem fenced_json_same_object:
  assumes "valid_json_text loads doc"
  shows "parse_json_response loads (py ''```json'' @ doc @ py ''```'') = parse_json_response loads doc \<and>
    parse_json_response loads (py ''```'' @ doc @ py ''```'') = parse_json_response loads doc \<and>
    (\<exists>obj. loads (strip doc) = Parsed obj \<and> parse_json_response loads doc = Inr obj)"
proof -
  from assms obtain obj where l: "loads (strip doc) = Parsed obj" and d: "json_delimited (strip doc)"
    by (auto simp: valid_json_text_def)
  have p: "parse_json_response loads doc = Inr obj"
    by (simp add: parse_json_response_def strip_fences_plain [OF d] strip_idem l)
  have j: "parse_json_response loads (fence_json @ doc @ fence) = Inr obj"
    by (simp add: parse_json_response_def strip_fences_json_fence [OF d] l)
  have f: "parse_json_response loads (fence @ doc @ fence) = Inr obj"
    by (simp add: parse_json_response_def strip_fences_plain_fence [OF d] l)
  show ?thesis using p j f l unfolding fence_json_def fence_def by simp
qed

text \<open>
  An exception of the first parse that is not \<open>json.JSONDecodeError\<close> leaves
  \<open>parse_json_response\<close>, whatever the response holds.
\<close>

lemma parse_raised:
  "loads (strip (strip_fences raw)) = Raised e \<Longrightarrow> parse_json_response loads raw = Inl e"
  by (simp add: parse_json_response_def)

text \<open>
  Claim C4, as amended. When the response holds a span from its first opening brace to
  its last closing brace that parses as JSON, and the parse of the whole response (fences
  and white space stripped) raises \<open>json.JSONDecodeError\<close>, the object of the span is
  returned and nothing is raised.
\<close>

theorem embedded_span_recovered:
  assumes "raw = pre @ 123 # body @ 125 # post" and "123 \<notin> set pre" and "125 \<notin> set post"
    and "loads (123 # body @ [125]) = Parsed obj"
    and "loads (strip (strip_fences raw)) = JSONDecodeError"
  shows "parse_json_response loads raw = Inr obj"
proof -
  have "brace_span raw = Some (123 # body @ [125])"
    unfolding assms(1) using assms(2,3) by (rule brace_span_found)
  then have "brace_span (strip_fences raw) = Some (123 # body @ [125])"
    by (simp add: brace_span_strip_fences)
  then show ?thesis using assms(4,5) by (simp add: parse_json_response_def)
qed

lemma generate_json_reply:
  "generate_with_retry b provider (prompt @ json_instruction) sys = Inr (Some raw) \<Longrightarrow>
   generate_json b loads provider prompt sys = parse_json_response loads raw"
  by (simp add: generate_json_def)

lemma generate_json_raises:
  "generate_with_retry b provider (prompt @ json_instruction) sys = Inl e \<Longrightarrow>
   generate_json b loads provider prompt sys = Inl e"
  by (simp add: generate_json_def)

lemma replying_with_retry:
  "generate_with_retry (replying_backends raw) (py ''openai'') p sys = Inr (Some raw)"
  by (simp add: generate_with_retry_def generate_def replying_backends_def)

text \<open>
  Claim C3, as amended. When the parse of the response after \<open>strip_fences\<close> raises
  \<open>json.JSONDecodeError\<close> and the response holds no span from an opening to a later
  closing brace, \<open>ValueError\<close> is raised; its message is the fixed text followed by the
  first 200 code points of the response as \<open>strip_fences\<close> left it. These are at most
  200 code points, a contiguous part of the raw response, and a prefix of it when the
  raw response begins with neither white space nor a fence. \<open>generate_json\<close> raises this
  error whenever the backend has replied with such a response.
\<close>

theorem unparsable_response_error:
  assumes "loads (strip (strip_fences raw)) = JSONDecodeError"
    and "\<not> (\<exists>pre body post. raw = pre @ 123 # body @ 125 # post)"
  shows "parse_json_response loads raw
      = Inl (ValueError (msg_json_failed @ take 200 (strip_fences raw))) \<and>
    length (take 200 (strip_fences raw)) \<le> 200 \<and>
    str_in (take 200 (strip_fences raw)) raw \<and>
    ((raw = [] \<or> \<not> isspace (hd raw)) \<and> \<not> startswith raw (py ''```'') \<longrightarrow>
       prefix (take 200 (strip_fences raw)) raw) \<and>
    (\<forall>b provider prompt sys.
       generate_with_retry b provider (prompt @ json_instruction) sys = Inr (Some raw) \<longrightarrow>
       generate_json b loads provider prompt sys
         = Inl (ValueError (msg_json_failed @ take 200 (strip_fences raw))))"
proof -
  from assms(2) have "brace_span raw = None" by (simp add: brace_span_None_iff)
  then have n: "brace_span (strip_fences raw) = None" by (simp add: brace_span_strip_fences)
  have 1: "parse_json_response loads raw
      = Inl (ValueError (msg_json_failed @ take 200 (strip_fences raw)))"
    using assms(1) n by (simp add: parse_json_response_def)
  obtain a b where ab: "raw = a @ strip_fences raw @ b"
    and ae: "(raw = [] \<or> \<not> isspace (hd raw)) \<and> \<not> startswith raw fence \<longrightarrow> a = []"
    using strip_fences_split [of raw] by blast
  let ?t = "take 200 (strip_fences raw)"
  have t: "strip_fences raw = ?t @ drop 200 (strip_fences raw)" by simp
  have "raw = a @ ?t @ (drop 200 (strip_fences raw) @ b)"
    using ab t by (metis append.assoc)
  then have 3: "str_in ?t raw" unfolding str_in_iff by blast
  have 4: "prefix ?t raw" if "a = []"
  proof -
    from that ab have "raw = strip_fences raw @ b" by simp
    then have "raw = ?t @ (drop 200 (strip_fences raw) @ b)" using t by (metis append.assoc)
    then show ?thesis unfolding prefix_def by blast
  qed
  have 5: "generate_json b loads provider prompt sys
      = Inl (ValueError (msg_json_failed @ take 200 (strip_fences raw)))"
    if "generate_with_retry b provider (prompt @ json_instruction) sys = Inr (Some raw)"
    for b provider prompt sys
    using that 1 by (simp add: generate_json_reply)
  show ?thesis using 1 3 4 5 ae unfolding fence_def by simp
qed

lemma strip_newline_braces: "strip (10 # py ''{}'' @ [10]) = py ''{}''"
  by (simp add: strip_def isspace_def)

text \<open>The claim at the text \<open>{}\<close> between two line feeds.\<close>

theorem fenced_json_same_object_witness:
  "valid_json_text sample_loads (10 # py ''{}'' @ [10]) \<and>
   parse_json_response sample_loads (py ''```json'' @ (10 # py ''{}'' @ [10]) @ py ''```'') = Inr (JDict []) \<and>
   parse_json_response sample_loads (py ''```'' @ (10 # py ''{}'' @ [10]) @ py ''```'') = Inr (JDict []) \<and>
   parse_json_response sample_loads (10 # py ''{}'' @ [10]) = Inr (JDict [])"
proof -
  have v: "valid_json_text sample_loads (10 # py ''{}'' @ [10])"
    unfolding valid_json_text_def strip_newline_braces
    by (simp add: sample_loads_def json_delimited_def json_first_def json_last_def)
  have l: "sample_loads (strip (10 # py ''{}'' @ [10])) = Parsed (JDict [])"
    unfolding strip_newline_braces by (simp add: sample_loads_def)
  from fenced_json_same_object [OF v] l show ?thesis using v by auto
qed

lemma strip_fences_prose:
  "strip_fences (py ''Here is the result: {} Thanks.'') = py ''Here is the result: {} Thanks.''"
  by (simp add: strip_fences_def strip_def isspace_def endswith_def)

lemma strip_fences_no_json_plain:
  "strip_fences (py ''no json here'') = py ''no json here''"
  by (simp add: strip_fences_def strip_def isspace_def endswith_def)

text \<open>The amended claim at a response with prose around the span \<open>{}\<close>.\<close>

theorem embedded_span_recovered_witness:
  "sample_loads (strip (strip_fences (py ''Here is the result: {} Thanks.''))) = JSONDecodeError \<and>
   sample_loads (py ''{}'') = Parsed (JDict []) \<and>
   parse_json_response sample_loads (py ''Here is the result: {} Thanks.'') = Inr (JDict [])"
proof -
  have p: "sample_loads (strip (strip_fences (py ''Here is the result: {} Thanks.'')))
      = JSONDecodeError"
    unfolding strip_fences_prose
    by (simp add: strip_def isspace_def sample_loads_def keywords_text_def)
  have o: "sample_loads (123 # [] @ [125]) = Parsed (JDict [])"
    by (simp add: sample_loads_def)
  have r: "py ''Here is the result: {} Thanks.'' = py ''Here is the result: '' @ 123 # [] @ 125 # py '' Thanks.''"
    by simp
  have n: "123 \<notin> set (py ''Here is the result: '')" "125 \<notin> set (py '' Thanks.'')"
    by simp_all
  from embedded_span_recovered [OF r n o p] p o show ?thesis by simp
qed

text \<open>The sample decoder on the two responses that open a thousand arrays.\<close>

lemma strip_fences_unchanged:
  assumes "s \<noteq> []" and "\<not> isspace (hd s)" and "\<not> isspace (last s)"
    and "hd s \<noteq> 96" and "last s \<noteq> 96"
  shows "strip_fences s = s" and "strip s = s"
proof -
  show st: "strip s = s" using assms by (simp add: strip_fixed)
  have 1: "\<not> startswith s fence_json"
    using assms by (intro startswith_hd) (simp_all add: fence_json_def)
  have 2: "\<not> startswith s fence"
    using assms by (intro startswith_hd) (simp_all add: fence_def)
  have 3: "\<not> endswith s fence"
    using assms by (intro endswith_last) (simp_all add: fence_def)
  show "strip_fences s = s" by (simp add: strip_fences_alt Let_def st 1 2 3)
qed

lemma deep_array_edges:
  "deep_array \<noteq> []" "hd deep_array = 91" "last deep_array = 91"
  "deep_array_then_object \<noteq> []" "hd deep_array_then_object = 91"
  "last deep_array_then_object = 125"
  by (simp_all add: deep_array_def deep_array_then_object_def)

lemma deep_array_stripped:
  "strip_fences deep_array = deep_array" "strip deep_array = deep_array"
  "strip_fences deep_array_then_object = deep_array_then_object"
  "strip deep_array_then_object = deep_array_then_object"
  by (rule strip_fences_unchanged; simp add: deep_array_edges isspace_def)+

lemma length_differs: "length xs \<noteq> length ys \<Longrightarrow> xs \<noteq> ys"
  by auto

lemma sample_loads_deep:
  "sample_loads deep_array = Raised (RecursionError msg_recursion)"
  "sample_loads deep_array_then_object = Raised (RecursionError msg_recursion)"
proof -
  have l: "length deep_array = 1000" "length deep_array_then_object = 1003"
    by (simp_all add: deep_array_def deep_array_then_object_def)
  have n: "deep_array \<noteq> py ''{}''" "deep_array \<noteq> keywords_text"
    "deep_array_then_object \<noteq> py ''{}''" "deep_array_then_object \<noteq> keywords_text"
    by (rule length_differs; simp add: l keywords_text_def)+
  have t: "list_all (\<lambda>c. c = 91) (take 1000 deep_array)"
    "list_all (\<lambda>c. c = 91) (take 1000 deep_array_then_object)"
    by (simp_all add: deep_array_def deep_array_then_object_def list_all_iff)
  show "sample_loads deep_array = Raised (RecursionError msg_recursion)"
    using l n t by (simp add: sample_loads_def)
  show "sample_loads deep_array_then_object = Raised (RecursionError msg_recursion)"
    using l n t by (simp add: sample_loads_def)
qed

lemma deep_array_no_brace:
  "\<not> (\<exists>pre body post. deep_array = pre @ 123 # body @ 125 # post)"
proof
  assume "\<exists>pre body post. deep_array = pre @ 123 # body @ 125 # post"
  then obtain pre body post where "deep_array = pre @ 123 # body @ 125 # post" by blast
  then have "set deep_array = set (pre @ 123 # body @ 125 # post)" by (rule arg_cong)
  then have "123 \<in> set deep_array" by simp
  then show False by (simp add: deep_array_def)
qed

text \<open>
  Claim C4 as it is stated fails at the response that opens a thousand arrays and then
  holds the object \<open>{}\<close>: the span \<open>{}\<close> parses, the parse of the whole response fails
  with \<open>RecursionError\<close>, which the handler of \<open>json.JSONDecodeError\<close> does not catch,
  and the error is raised instead of the object of the span being returned.
\<close>

theorem embedded_span_recursion_counterexample:
  "brace_span deep_array_then_object = Some (py ''{}'') \<and>
   sample_loads (py ''{}'') = Parsed (JDict []) \<and>
   sample_loads (strip (strip_fences deep_array_then_object)) = Raised (RecursionError msg_recursion) \<and>
   parse_json_response sample_loads deep_array_then_object = Inl (RecursionError msg_recursion) \<and>
   parse_json_response sample_loads deep_array_then_object \<noteq> Inr (JDict [])"
proof -
  have d: "deep_array_then_object = (replicate 1000 91 @ [32]) @ 123 # [] @ 125 # []"
    by (simp add: deep_array_then_object_def)
  have 1: "brace_span deep_array_then_object = Some (py ''{}'')"
    unfolding d by (subst brace_span_found) simp_all
  have 2: "sample_loads (py ''{}'') = Parsed (JDict [])"
    by (simp add: sample_loads_def)
  have 3: "sample_loads (strip (strip_fences deep_array_then_object))
      = Raised (RecursionError msg_recursion)"
    unfolding deep_array_stripped by (rule sample_loads_deep)
  have 4: "parse_json_response sample_loads deep_array_then_object
      = Inl (RecursionError msg_recursion)"
    using 3 by (rule parse_raised)
  from 1 2 3 4 show ?thesis by simp
qed

lemma strip_fences_no_json:
  "strip_fences (10 # py ''no json here'') = py ''no json here''"
  by (simp add: strip_fences_def strip_def isspace_def endswith_def)

lemma no_json_facts:
  "sample_loads (strip (py ''no json here'')) = JSONDecodeError"
  "brace_span (py ''no json here'') = None"
  "brace_span (10 # py ''no json here'') = None"
  "take 200 (py ''no json here'') = py ''no json here''"
  by (simp_all add: strip_def isspace_def sample_loads_def keywords_text_def brace_span_def)

lemma parse_no_json:
  "parse_json_response sample_loads (10 # py ''no json here'')
     = Inl (ValueError (msg_json_failed @ py ''no json here''))"
  "parse_json_response sample_loads (py ''no json here'')
     = Inl (ValueError (msg_json_failed @ py ''no json here''))"
  unfolding parse_json_response_def Let_def strip_fences_no_json strip_fences_no_json_plain
    no_json_facts
  by simp_all

text \<open>
  Claim C3 as it is stated fails at two responses. At "no json here" after a line feed
  the response does not parse and has no brace, and the message carries "no json here",
  so the first code points of the raw response (the line feed first) do not occur in it.
  At the response that opens a thousand arrays, which does not parse and has no brace
  either, the parse raises \<open>RecursionError\<close>, and this error, not the \<open>ValueError\<close> with
  the message, leaves the function.
\<close>

theorem unparsable_response_raw_prefix_counterexample:
  "sample_loads (strip (strip_fences (10 # py ''no json here''))) = JSONDecodeError \<and>
   brace_span (10 # py ''no json here'') = None \<and>
   generate_json (replying_backends (10 # py ''no json here'')) sample_loads (py ''openai'')
       (py ''List the keywords'') None
     = Inl (ValueError (msg_json_failed @ py ''no json here'')) \<and>
   \<not> str_in (take 200 (10 # py ''no json here'')) (msg_json_failed @ py ''no json here'') \<and>
   sample_loads (strip (strip_fences deep_array)) = Raised (RecursionError msg_recursion) \<and>
   brace_span deep_array = None \<and>
   generate_json (replying_backends deep_array) sample_loads (py ''openai'')
       (py ''List the keywords'') None
     = Inl (RecursionError msg_recursion)"
proof -
  have 1: "sample_loads (strip (strip_fences (10 # py ''no json here''))) = JSONDecodeError"
    unfolding strip_fences_no_json by (rule no_json_facts(1))
  have 3: "generate_json (replying_backends (10 # py ''no json here'')) sample_loads (py ''openai'')
       (py ''List the keywords'') None
     = Inl (ValueError (msg_json_failed @ py ''no json here''))"
    by (simp only: generate_json_reply [OF replying_with_retry] parse_no_json(1))
  have 4: "\<not> str_in (take 200 (10 # py ''no json here'')) (msg_json_failed @ py ''no json here'')"
    by (simp add: msg_json_failed_def)
  have 5: "sample_loads (strip (strip_fences deep_array)) = Raised (RecursionError msg_recursion)"
    unfolding deep_array_stripped by (rule sample_loads_deep)
  have 6: "brace_span deep_array = None"
    unfolding brace_span_None_iff by (rule deep_array_no_brace)
  have 7: "generate_json (replying_backends deep_array) sample_loads (py ''openai'')
       (py ''List the keywords'') None
     = Inl (RecursionError msg_recursion)"
    by (simp only: generate_json_reply [OF replying_with_retry] parse_raised [of sample_loads deep_array, OF 5])
  from 1 no_json_facts(3) 3 4 5 6 7 show ?thesis by blast
qed

text \<open>The amended claim at the same response, and at the response without the line feed.\<close>

theorem unparsable_response_error_witness:
  "parse_json_response sample_loads (10 # py ''no json here'')
     = Inl (ValueError (msg_json_failed @ py ''no json here'')) \<and>
   str_in (py ''no json here'') (10 # py ''no json here'') \<and>
   parse_json_response sample_loads (py ''no json here'')
     = Inl (ValueError (msg_json_failed @ py ''no json here'')) \<and>
   prefix (py ''no json here'') (py ''no json here'') \<and>
   generate_json (replying_backends (py ''no json here'')) sample_loads (py ''openai'')
       (py ''List the keywords'') None
     = Inl (ValueError (msg_json_failed @ py ''no json here''))"
proof -
  have g: "generate_with_retry (replying_backends (py ''no json here'')) (py ''openai'')
       (py ''List the keywords'' @ json_instruction) None
     = Inr (Some (py ''no json here''))"
    by (rule replying_with_retry)
  have n1: "\<not> (\<exists>pre body post. 10 # py ''no json here'' = pre @ 123 # body @ 125 # post)"
    unfolding brace_span_None_iff [symmetric] by (rule no_json_facts(3))
  have n2: "\<not> (\<exists>pre body post. py ''no json here'' = pre @ 123 # body @ 125 # post)"
    unfolding brace_span_None_iff [symmetric] by (rule no_json_facts(2))
  have a: "sample_loads (strip (strip_fences (10 # py ''no json here''))) = JSONDecodeError"
    unfolding strip_fences_no_json by (rule no_json_facts(1))
  have b: "sample_loads (strip (strip_fences (py ''no json here''))) = JSONDecodeError"
    unfolding strip_fences_no_json_plain by (rule no_json_facts(1))
  have h: "(py ''no json here'' = [] \<or> \<not> isspace (hd (py ''no json here''))) \<and>
      \<not> startswith (py ''no json here'') (py ''```'')"
    by (simp add: isspace_def)
  from unparsable_response_error [of sample_loads "10 # py ''no json here''", OF a n1]
    unparsable_response_error [of sample_loads "py ''no json here''", OF b n2] h g
  show ?thesis unfolding strip_fences_no_json strip_fences_no_json_plain no_json_facts by blast
qed

subsection \<open>The keyword fallback\<close>

lemma append_word_keywords_eq:
  "append_word_keywords acc ws = acc @ map word_keyword (filter (\<lambda>w. 3 < length w) ws)"
  by (induction ws arbitrary: acc) auto

text \<open>
  The words of the product name that the fallback reads in a dictionary: those of the
  lower-cased text when the key holds a text that is not empty, none when the key is
  missing or holds the empty text or another value that is false in a condition.
\<close>

lemma fallback_keywords_text:
  assumes "map_of d (py ''product_name'') = Some (JStr s)"
  shows "generate_fallback_keywords lower (JDict d) =
     Inr (JDict [(py ''keywords'',
             JList (map word_keyword
                      (filter (\<lambda>w. 3 < length w) (if s = [] then [] else split (lower s)))
                    @ generic_keywords))])"
  using assms
  by (simp add: generate_fallback_keywords_def py_get_def product_name_keywords_def
      append_word_keywords_eq)

lemma fallback_keywords_false:
  assumes "map_of d (py ''product_name'') = None \<or>
    (\<exists>v. map_of d (py ''product_name'') = Some v \<and> \<not> truthy v)"
  shows "generate_fallback_keywords lower (JDict d) =
     Inr (JDict [(py ''keywords'', JList generic_keywords)])"
  using assms
  by (auto simp: generate_fallback_keywords_def py_get_def)

lemma fallback_keywords_raises:
  assumes "map_of d (py ''product_name'') = Some v" and "truthy v" and "\<forall>s. v \<noteq> JStr s"
  shows "generate_fallback_keywords lower (JDict d) =
     Inl (AttributeError (msg_no_attribute (type_name v) (py ''lower'')))"
  using assms
  by (cases v) (simp_all add: generate_fallback_keywords_def py_get_def product_name_keywords_def)

text \<open>
  Claim C5, as amended. For an analysis that is a dictionary whose product name is
  missing, a text, or a value that is false in a condition: whenever the prompt has been
  built and \<open>generate_json\<close> raises, whatever the backend and the exception,
  \<open>generate_keywords\<close> returns the dictionary whose list \<open>keywords\<close> is not empty and
  consists of one broad-match record for each word longer than 3 of the lower-cased
  product name (no word when the product name is not a text that is not empty),
  followed by the four fixed records \<open>buy\<close>, \<open>price\<close>, \<open>order\<close> and \<open>services\<close>.
\<close>

theorem keywords_fallback:
  assumes "keyword_template prompts d = Inr prompt"
    and "generate_json b loads provider (keyword_prompt prompt ctx)
             (Some (keyword_system_prompt prompts)) = Inl e"
    and "\<forall>v. map_of d (py ''product_name'') = Some v \<longrightarrow> (\<exists>s. v = JStr s) \<or> \<not> truthy v"
  shows "\<exists>kws. generate_keywords b loads lower prompts provider (JDict d) ctx
             = Inr (JDict [(py ''keywords'', JList kws)]) \<and>
      kws \<noteq> [] \<and>
      kws =
        map (\<lambda>word. keyword_record word (py ''broad'') (py ''medium'') (py ''high'') (py ''transactional''))
          (filter (\<lambda>word. 3 < length word)
             (case map_of d (py ''product_name'') of
                Some (JStr s) \<Rightarrow> if s = [] then [] else split (lower s)
              | _ \<Rightarrow> []))
        @ [keyword_record (py ''buy'') (py ''phrase'') (py ''high'') (py ''high'') (py ''transactional''),
           keyword_record (py ''price'') (py ''phrase'') (py ''high'') (py ''high'') (py ''transactional''),
           keyword_record (py ''order'') (py ''phrase'') (py ''medium'') (py ''high'') (py ''transactional''),
           keyword_record (py ''services'') (py ''broad'') (py ''high'') (py ''medium'') (py ''informational'')]"
proof -
  have w: "word_keyword = (\<lambda>word. keyword_record word (py ''broad'') (py ''medium'') (py ''high'') (py ''transactional''))"
    by (rule ext) (simp add: word_keyword_def)
  have g: "generate_keywords b loads lower prompts provider (JDict d) ctx
      = generate_fallback_keywords lower (JDict d)"
    using assms(1,2) by (simp add: generate_keywords_def create_keyword_generation_prompt_def)
  show ?thesis
  proof (cases "map_of d (py ''product_name'')")
    case None
    then have "generate_fallback_keywords lower (JDict d)
        = Inr (JDict [(py ''keywords'', JList generic_keywords)])"
      by (simp add: fallback_keywords_false)
    then show ?thesis unfolding g generic_keywords_def using None by simp
  next
    case (Some v)
    show ?thesis
    proof (cases "\<exists>s. v = JStr s")
      case True
      then obtain s where v: "v = JStr s" by blast
      have "generate_fallback_keywords lower (JDict d) =
         Inr (JDict [(py ''keywords'',
             JList (map word_keyword
                      (filter (\<lambda>w. 3 < length w) (if s = [] then [] else split (lower s)))
                    @ generic_keywords))])"
        using Some v by (simp add: fallback_keywords_text)
      then show ?thesis unfolding g generic_keywords_def w using Some v by simp
    next
      case False
      with assms(3) Some have f: "\<not> truthy v" by blast
      then have "generate_fallback_keywords lower (JDict d)
          = Inr (JDict [(py ''keywords'', JList generic_keywords)])"
        using Some by (simp add: fallback_keywords_false)
      moreover have "(case Some v of Some (JStr s) \<Rightarrow> if s = [] then [] else split (lower s)
          | _ \<Rightarrow> []) = []"
        using False by (cases v) simp_all
      ultimately show ?thesis unfolding g generic_keywords_def using Some by simp
    qed
  qed
qed

lemma generate_raising: "generate (raising_backends e) (py ''groq'') p s j = Inl e"
  by (simp add: generate_def raising_backends_def)

lemma generate_json_raising:
  "generate_json (raising_backends e) loads (py ''groq'') p s = Inl e"
  by (simp only: generate_json_def generate_with_retry_def generate_raising Let_def sum.case)

lemma split_lower_sample:
  "split (ascii_lower (py ''Ergonomic Office Chair Pro''))
     = [py ''ergonomic'', py ''office'', py ''chair'', py ''pro'']"
  by (simp add: split_def ascii_lower_def isspace_def)

text \<open>
  Claim C5 as it is stated fails at the analysis whose product name is the number 2024:
  the backend raises "rate limit", the fallback reaches \<open>product_name.lower()\<close>, and
  \<open>AttributeError\<close> leaves \<open>generate_keywords\<close>; no list is returned.
\<close>

theorem keywords_fallback_numeric_name_counterexample:
  "keyword_template sample_prompts numeric_fab = Inr (py ''Name: '') \<and>
   generate_json (raising_backends (OtherError (py ''rate limit''))) sample_loads (py ''groq'')
     (keyword_prompt (py ''Name: '') None) (Some (keyword_system_prompt sample_prompts))
     = Inl (OtherError (py ''rate limit'')) \<and>
   generate_keywords (raising_backends (OtherError (py ''rate limit''))) sample_loads ascii_lower
     sample_prompts (py ''groq'') (JDict numeric_fab) None
     = Inl (AttributeError (msg_no_attribute (py ''int'') (py ''lower'')))"
proof -
  have t: "keyword_template sample_prompts numeric_fab = Inr (py ''Name: '')"
    by (simp add: sample_prompts_def numeric_fab_def)
  have m: "map_of numeric_fab (py ''product_name'') = Some (JInt 2024)"
    by (simp add: numeric_fab_def)
  have f: "generate_fallback_keywords ascii_lower (JDict numeric_fab)
      = Inl (AttributeError (msg_no_attribute (type_name (JInt 2024 :: int json)) (py ''lower'')))"
    using m by (rule fallback_keywords_raises) simp_all
  have k: "generate_keywords (raising_backends (OtherError (py ''rate limit''))) sample_loads
      ascii_lower sample_prompts (py ''groq'') (JDict numeric_fab) None
     = generate_fallback_keywords ascii_lower (JDict numeric_fab)"
    by (simp only: generate_keywords_def create_keyword_generation_prompt_def json.case t
        sum.case generate_json_raising)
  show ?thesis unfolding k f using t generate_json_raising by simp
qed

text \<open>
  The amended claim with backends that all raise "rate limit", for the product "Ergonomic
  Office Chair Pro": three words are longer than 3.
\<close>

theorem keywords_fallback_witness:
  "keyword_template sample_prompts sample_fab = Inr (py ''Name: Ergonomic Office Chair Pro'') \<and>
   generate_json (raising_backends (OtherError (py ''rate limit''))) sample_loads (py ''groq'')
     (keyword_prompt (py ''Name: Ergonomic Office Chair Pro'') None)
     (Some (keyword_system_prompt sample_prompts))
     = Inl (OtherError (py ''rate limit'')) \<and>
   generate_keywords (raising_backends (OtherError (py ''rate limit''))) sample_loads ascii_lower
     sample_prompts (py ''groq'') (JDict sample_fab) None
     = Inr (JDict [(py ''keywords'',
         JList [keyword_record (py ''ergonomic'') (py ''broad'') (py ''medium'') (py ''high'') (py ''transactional''),
                keyword_record (py ''office'') (py ''broad'') (py ''medium'') (py ''high'') (py ''transactional''),
                keyword_record (py ''chair'') (py ''broad'') (py ''medium'') (py ''high'') (py ''transactional''),
                keyword_record (py ''buy'') (py ''phrase'') (py ''high'') (py ''high'') (py ''transactional''),
                keyword_record (py ''price'') (py ''phrase'') (py ''high'') (py ''high'') (py ''transactional''),
                keyword_record (py ''order'') (py ''phrase'') (py ''medium'') (py ''high'') (py ''transactional''),
                keyword_record (py ''services'') (py ''broad'') (py ''high'') (py ''medium'') (py ''informational'')])])"
proof -
  have t: "keyword_template sample_prompts sample_fab = Inr (py ''Name: Ergonomic Office Chair Pro'')"
    by (simp add: sample_prompts_def sample_fab_def)
  have g: "generate_json (raising_backends (OtherError (py ''rate limit''))) sample_loads (py ''groq'')
     (keyword_prompt (py ''Name: Ergonomic Office Chair Pro'') None)
     (Some (keyword_system_prompt sample_prompts))
     = Inl (OtherError (py ''rate limit''))"
    by (rule generate_json_raising)
  have m: "map_of sample_fab (py ''product_name'') = Some (JStr (py ''Ergonomic Office Chair Pro''))"
    by (simp add: sample_fab_def)
  have h: "\<forall>v. map_of sample_fab (py ''product_name'') = Some v \<longrightarrow> (\<exists>s. v = JStr s) \<or> \<not> truthy v"
    unfolding m by simp
  from keywords_fallback [OF t g h, of ascii_lower] t g show ?thesis
    unfolding m option.case json.case split_lower_sample by simp
qed

subsection \<open>Construction of the adapter\<close>

lemma init_unknown:
  assumes "or_default provider_arg (ai_provider st) \<notin> set known_providers"
  shows "AIGenerator_init libs st provider_arg model_arg
    = Inl (ValueError (msg_unknown_provider @ or_default provider_arg (ai_provider st)))"
proof -
  from assms have "or_default provider_arg (ai_provider st) \<noteq> py ''openai''"
    "or_default provider_arg (ai_provider st) \<noteq> py ''anthropic''"
    "or_default provider_arg (ai_provider st) \<noteq> py ''google''"
    "or_default provider_arg (ai_provider st) \<noteq> py ''ollama''"
    "or_default provider_arg (ai_provider st) \<noteq> py ''groq''"
    unfolding known_providers_def by auto
  then show ?thesis
    unfolding AIGenerator_init_def Let_def by (simp only: if_False sum.case)
qed

lemma init_constructed:
  assumes "AIGenerator_init libs st provider_arg model_arg = Inr g"
  shows "self_provider g = or_default provider_arg (ai_provider st)"
    and "self_provider g \<in> set known_providers"
    and "self_model g = or_default model_arg (ai_model st)"
proof -
  have k: "or_default provider_arg (ai_provider st) \<in> set known_providers"
  proof (rule ccontr)
    assume "or_default provider_arg (ai_provider st) \<notin> set known_providers"
    then have "AIGenerator_init libs st provider_arg model_arg
      = Inl (ValueError (msg_unknown_provider @ or_default provider_arg (ai_provider st)))"
      by (rule init_unknown)
    with assms show False by simp
  qed
  from assms show 1: "self_provider g = or_default provider_arg (ai_provider st)"
    unfolding AIGenerator_init_def Let_def by (auto split: sum.splits)
  from assms show "self_model g = or_default model_arg (ai_model st)"
    unfolding AIGenerator_init_def Let_def by (auto split: sum.splits)
  from k 1 show "self_provider g \<in> set known_providers" by simp
qed

lemma init_client_accepts:
  "imported = Some construct \<Longrightarrow> construct key = Inr c \<Longrightarrow> init_client imported key package = Inr c"
  by (simp add: init_client_def)

lemma distinct_names:
  "py ''anthropic'' \<noteq> py ''openai''" "py ''google'' \<noteq> py ''openai''" "py ''google'' \<noteq> py ''anthropic''"
  "py ''groq'' \<noteq> py ''openai''" "py ''groq'' \<noteq> py ''anthropic''" "py ''groq'' \<noteq> py ''google''"
  "py ''groq'' \<noteq> py ''ollama''" "py ''ollama'' \<noteq> py ''openai''" "py ''ollama'' \<noteq> py ''anthropic''"
  "py ''ollama'' \<noteq> py ''google''"
  by simp_all

lemma init_accepts:
  "or_default provider_arg (ai_provider st) = py ''openai'' \<Longrightarrow>
     import_openai libs = Some construct \<Longrightarrow> construct (openai_api_key st) = Inr c \<Longrightarrow>
     AIGenerator_init libs st provider_arg model_arg
       = Inr \<lparr>self_provider = py ''openai'', self_model = or_default model_arg (ai_model st),
              self_client = c\<rparr>"
  "or_default provider_arg (ai_provider st) = py ''anthropic'' \<Longrightarrow>
     import_anthropic libs = Some construct \<Longrightarrow> construct (anthropic_api_key st) = Inr c \<Longrightarrow>
     AIGenerator_init libs st provider_arg model_arg
       = Inr \<lparr>self_provider = py ''anthropic'', self_model = or_default model_arg (ai_model st),
              self_client = c\<rparr>"
  "or_default provider_arg (ai_provider st) = py ''google'' \<Longrightarrow>
     import_google libs = Some construct \<Longrightarrow> construct (google_api_key st) = Inr c \<Longrightarrow>
     AIGenerator_init libs st provider_arg model_arg
       = Inr \<lparr>self_provider = py ''google'', self_model = or_default model_arg (ai_model st),
              self_client = c\<rparr>"
  "or_default provider_arg (ai_provider st) = py ''groq'' \<Longrightarrow>
     import_groq libs = Some construct \<Longrightarrow> construct (groq_api_key st) = Inr c \<Longrightarrow>
     AIGenerator_init libs st provider_arg model_arg
       = Inr \<lparr>self_provider = py ''groq'', self_model = or_default model_arg (ai_model st),
              self_client = c\<rparr>"
  "or_default provider_arg (ai_provider st) = py ''ollama'' \<Longrightarrow> import_ollama libs = Some c \<Longrightarrow>
     AIGenerator_init libs st provider_arg model_arg
       = Inr \<lparr>self_provider = py ''ollama'', self_model = or_default model_arg (ai_model st),
              self_client = c\<rparr>"
  unfolding AIGenerator_init_def Let_def
  by (simp_all only: distinct_names init_client_accepts if_True if_False sum.case option.case refl)

text \<open>
  Claim C8, as amended. The provider name in force is the argument, or the configured
  name when the argument is \<open>None\<close> or empty. When it is outside the fixed set the
  constructor raises \<open>ValueError\<close> and leaves no object; an object, when one is
  returned, has a provider of the set. The constructor makes no test of the credential:
  it hands the configured key to the provider library, and when the library is installed
  and its constructor returns a client for that key (\<open>ollama\<close>: when the module is
  installed) the adapter is constructed.
\<close>

theorem constructor_provider_check:
  "(or_default provider_arg (ai_provider st) \<notin> set known_providers \<longrightarrow>
      AIGenerator_init libs st provider_arg model_arg
        = Inl (ValueError (msg_unknown_provider @ or_default provider_arg (ai_provider st)))) \<and>
   (\<forall>g. AIGenerator_init libs st provider_arg model_arg = Inr g \<longrightarrow>
      self_provider g = or_default provider_arg (ai_provider st) \<and>
      self_provider g \<in> set known_providers \<and>
      self_model g = or_default model_arg (ai_model st)) \<and>
   (or_default provider_arg (ai_provider st) = py ''openai'' \<and>
    import_openai libs = Some construct \<and> construct (openai_api_key st) = Inr c \<longrightarrow>
      AIGenerator_init libs st provider_arg model_arg
        = Inr \<lparr>self_provider = py ''openai'', self_model = or_default model_arg (ai_model st),
               self_client = c\<rparr>) \<and>
   (or_default provider_arg (ai_provider st) = py ''anthropic'' \<and>
    import_anthropic libs = Some construct \<and> construct (anthropic_api_key st) = Inr c \<longrightarrow>
      AIGenerator_init libs st provider_arg model_arg
        = Inr \<lparr>self_provider = py ''anthropic'', self_model = or_default model_arg (ai_model st),
               self_client = c\<rparr>) \<and>
   (or_default provider_arg (ai_provider st) = py ''google'' \<and>
    import_google libs = Some construct \<and> construct (google_api_key st) = Inr c \<longrightarrow>
      AIGenerator_init libs st provider_arg model_arg
        = Inr \<lparr>self_provider = py ''google'', self_model = or_default model_arg (ai_model st),
               self_client = c\<rparr>) \<and>
   (or_default provider_arg (ai_provider st) = py ''groq'' \<and>
    import_groq libs = Some construct \<and> construct (groq_api_key st) = Inr c \<longrightarrow>
      AIGenerator_init libs st provider_arg model_arg
        = Inr \<lparr>self_provider = py ''groq'', self_model = or_default model_arg (ai_model st),
               self_client = c\<rparr>) \<and>
   (or_default provider_arg (ai_provider st) = py ''ollama'' \<and> import_ollama libs = Some c \<longrightarrow>
      AIGenerator_init libs st provider_arg model_arg
        = Inr \<lparr>self_provider = py ''ollama'', self_model = or_default model_arg (ai_model st),
               self_client = c\<rparr>)"
  using init_unknown [of provider_arg st libs model_arg]
    init_constructed [of libs st provider_arg model_arg]
    init_accepts [where provider_arg = provider_arg and st = st and libs = libs and c = c
      and model_arg = model_arg]
  by blast

text \<open>
  Claim C8 as it is stated fails: with the default settings, where the provider is
  \<open>google\<close> and its key is empty, and libraries that take any key, the constructor
  returns an adapter; so it does for \<open>ollama\<close>, which has no credential; and the empty
  provider name, which is outside the fixed set, falls back to the configured provider.
\<close>

theorem missing_credential_constructs_counterexample:
  "google_api_key default_settings = [] \<and>
   AIGenerator_init lenient_libraries default_settings None None
     = Inr \<lparr>self_provider = py ''google'', self_model = py ''gemini-2.0-flash'', self_client = ()\<rparr> \<and>
   py ''ollama'' \<in> set known_providers \<and>
   AIGenerator_init lenient_libraries default_settings (Some (py ''ollama'')) (Some (py ''llama3''))
     = Inr \<lparr>self_provider = py ''ollama'', self_model = py ''llama3'', self_client = ()\<rparr> \<and>
   [] \<notin> set known_providers \<and>
   AIGenerator_init lenient_libraries default_settings (Some []) None
     = Inr \<lparr>self_provider = py ''google'', self_model = py ''gemini-2.0-flash'', self_client = ()\<rparr>"
  by (simp add: AIGenerator_init_def default_settings_def lenient_libraries_def or_default_def
      init_client_def known_providers_def)

text \<open>
  The amended claim at the provider name "mistral", at the default settings, and at each
  of the other four providers, with libraries that take the empty key.
\<close>

theorem constructor_provider_check_witness:
  "py ''mistral'' \<notin> set known_providers \<and>
   AIGenerator_init lenient_libraries default_settings (Some (py ''mistral'')) None
     = Inl (ValueError (msg_unknown_provider @ py ''mistral'')) \<and>
   AIGenerator_init lenient_libraries default_settings None None
     = Inr \<lparr>self_provider = py ''google'', self_model = py ''gemini-2.0-flash'', self_client = ()\<rparr> \<and>
   py ''google'' \<in> set known_providers \<and>
   AIGenerator_init lenient_libraries default_settings (Some (py ''openai'')) None
     = Inr \<lparr>self_provider = py ''openai'', self_model = py ''gemini-2.0-flash'', self_client = ()\<rparr> \<and>
   AIGenerator_init lenient_libraries default_settings (Some (py ''anthropic'')) None
     = Inr \<lparr>self_provider = py ''anthropic'', self_model = py ''gemini-2.0-flash'', self_client = ()\<rparr> \<and>
   AIGenerator_init lenient_libraries default_settings (Some (py ''groq'')) None
     = Inr \<lparr>self_provider = py ''groq'', self_model = py ''gemini-2.0-flash'', self_client = ()\<rparr> \<and>
   AIGenerator_init lenient_libraries default_settings (Some (py ''ollama'')) None
     = Inr \<lparr>self_provider = py ''ollama'', self_model = py ''gemini-2.0-flash'', self_client = ()\<rparr>"
proof -
  have u: "or_default (Some (py ''mistral'')) (ai_provider default_settings) = py ''mistral''"
    "or_default (Some (py ''openai'')) (ai_provider default_settings) = py ''openai''"
    "or_default (Some (py ''anthropic'')) (ai_provider default_settings) = py ''anthropic''"
    "or_default (Some (py ''groq'')) (ai_provider default_settings) = py ''groq''"
    "or_default (Some (py ''ollama'')) (ai_provider default_settings) = py ''ollama''"
    by (simp_all add: or_default_def)
  have n: "py ''mistral'' \<notin> set known_providers"
    by (simp add: known_providers_def)
  have d: "or_default None (ai_provider default_settings) = py ''google''"
    "or_default None (ai_model default_settings) = py ''gemini-2.0-flash''"
    by (simp_all add: or_default_def default_settings_def)
  have i: "import_google lenient_libraries = Some (\<lambda>key. Inr ())"
    "import_openai lenient_libraries = Some (\<lambda>key. Inr ())"
    "import_anthropic lenient_libraries = Some (\<lambda>key. Inr ())"
    "import_groq lenient_libraries = Some (\<lambda>key. Inr ())"
    "import_ollama lenient_libraries = Some ()"
    by (simp_all add: lenient_libraries_def)
  note t = constructor_provider_check
    [where st = default_settings and libs = lenient_libraries and model_arg = None
      and construct = "\<lambda>key. Inr ()" and c = "()"]
  from t [of "Some (py ''mistral'')"] n
  have 1: "AIGenerator_init lenient_libraries default_settings (Some (py ''mistral'')) None
     = Inl (ValueError (msg_unknown_provider @ py ''mistral''))"
    unfolding u by blast
  from t [of None] i
  have 2: "AIGenerator_init lenient_libraries default_settings None None
     = Inr \<lparr>self_provider = py ''google'', self_model = py ''gemini-2.0-flash'', self_client = ()\<rparr>"
    unfolding d by blast
  from t [of None] 2
  have 3: "py ''google'' \<in> set known_providers"
    by (metis ai_generator.select_convs(1))
  from t [of "Some (py ''openai'')"] i
  have 4: "AIGenerator_init lenient_libraries default_settings (Some (py ''openai'')) None
     = Inr \<lparr>self_provider = py ''openai'', self_model = py ''gemini-2.0-flash'', self_client = ()\<rparr>"
    unfolding u d by blast
  from t [of "Some (py ''anthropic'')"] i
  have 5: "AIGenerator_init lenient_libraries default_settings (Some (py ''anthropic'')) None
     = Inr \<lparr>self_provider = py ''anthropic'', self_model = py ''gemini-2.0-flash'', self_client = ()\<rparr>"
    unfolding u d by blast
  from t [of "Some (py ''groq'')"] i
  have 6: "AIGenerator_init lenient_libraries default_settings (Some (py ''groq'')) None
     = Inr \<lparr>self_provider = py ''groq'', self_model = py ''gemini-2.0-flash'', self_client = ()\<rparr>"
    unfolding u d by blast
  from t [of "Some (py ''ollama'')"] i
  have 7: "AIGenerator_init lenient_libraries default_settings (Some (py ''ollama'')) None
     = Inr \<lparr>self_provider = py ''ollama'', self_model = py ''gemini-2.0-flash'', self_client = ()\<rparr>"
    unfolding u d by blast
  from n 1 2 3 4 5 6 7 show ?thesis by blast
qed

end
